theory Spec2Isabelle
  imports Main "HOL-Library.Word"
begin

unbundle bit_operations_syntax

section \<open>Common types of usbuart.h and usbuart.hpp\<close>

type_synonym u8 = "8 word"
type_synonym u16 = "16 word"
type_synonym u32 = "32 word"

text \<open>\<^verbatim>\<open>enum class error_t\<close> of usbuart.h, in declaration order. The values double as
  exception codes: a \<^verbatim>\<open>throw error_t::x\<close> is the result \<open>Inl x\<close>.\<close>

datatype error_t =
    success | no_channels | not_implemented | invalid_param | no_channel
  | no_access | not_supported | no_device | no_interface | interface_busy
  | libusb_error | usb_error | device_error | bad_baudrate | probe_mismatch
  | control_error | io_error | fcntl_error | poll_error | pipe_error
  | out_of_memory | jni_error | unknown_error

text \<open>\<^verbatim>\<open>static_cast<int>(v)\<close>: the position of the enumerator.\<close>

fun error_int :: "error_t \<Rightarrow> int" where
  "error_int success = 0"
| "error_int no_channels = 1"
| "error_int not_implemented = 2"
| "error_int invalid_param = 3"
| "error_int no_channel = 4"
| "error_int no_access = 5"
| "error_int not_supported = 6"
| "error_int no_device = 7"
| "error_int no_interface = 8"
| "error_int interface_busy = 9"
| "error_int libusb_error = 10"
| "error_int usb_error = 11"
| "error_int device_error = 12"
| "error_int bad_baudrate = 13"
| "error_int probe_mismatch = 14"
| "error_int control_error = 15"
| "error_int io_error = 16"
| "error_int fcntl_error = 17"
| "error_int poll_error = 18"
| "error_int pipe_error = 19"
| "error_int out_of_memory = 20"
| "error_int jni_error = 21"
| "error_int unknown_error = 22"

text \<open>\<^verbatim>\<open>safe\<close> of core.cpp: the facade boundary. A thrown \<^verbatim>\<open>error_t\<close> becomes the negated
  code; a normal return passes through.\<close>

definition safe :: "error_t + int \<Rightarrow> int" where
  "safe r = (case r of Inl err \<Rightarrow> - error_int err | Inr v \<Rightarrow> v)"

section \<open>Control transfers (generic.cpp)\<close>

text \<open>One vendor control transfer as handed to \<^verbatim>\<open>libusb_control_transfer\<close>. The device
  is a function from the request to libusb's return value; the requests issued so far are
  kept in a log.\<close>

record ctrl =
  bmRequestType :: u8
  bRequest :: u8
  wValue :: u16
  wIndex :: u16

type_synonym usbdev = "ctrl \<Rightarrow> int"
type_synonym 'a ctl = "ctrl list \<Rightarrow> (error_t + 'a) \<times> ctrl list"

text \<open>\<^verbatim>\<open>LIBUSB_REQUEST_TYPE_VENDOR | LIBUSB_ENDPOINT_OUT\<close>, the libusb constants
  \<^verbatim>\<open>0x40\<close> and \<^verbatim>\<open>0x00\<close>.\<close>

definition vendor_reqo :: u8 where
  "vendor_reqo = 0x40 OR 0x00"

text \<open>\<^verbatim>\<open>generic::write_cv\<close>: issue the transfer, throw \<^verbatim>\<open>control_error\<close> when libusb
  reports a negative result.\<close>

definition write_cv :: "usbdev \<Rightarrow> u8 \<Rightarrow> u16 \<Rightarrow> u16 \<Rightarrow> unit ctl" where
  "write_cv usb req val index = (\<lambda>log.
     let c = \<lparr>bmRequestType = vendor_reqo, bRequest = req, wValue = val, wIndex = index\<rparr>
     in if usb c < 0 then (Inl control_error, log @ [c]) else (Inr (), log @ [c]))"

text \<open>Sequencing of two statements: the second runs only when the first did not throw.\<close>

definition andthen :: "unit ctl \<Rightarrow> 'a ctl \<Rightarrow> 'a ctl" where
  "andthen m k = (\<lambda>log. case m log of
       (Inl e, log') \<Rightarrow> (Inl e, log')
     | (Inr _, log') \<Rightarrow> k log')"

section \<open>FTDI driver (ftdi.cpp)\<close>

definition set_baudrate_req :: u8 where
  "set_baudrate_req = 0x03"

definition high_clk :: u32 where
  "high_clk = 120 * 1000 * 1000"

definition low_clk :: u32 where
  "low_clk = 48 * 1000 * 1000"

definition mapper :: "u16 list" where
  "mapper = [0x0000, 0xC000, 0x8000, 0x0100, 0x4000, 0x4100, 0x8100, 0xC100]"

definition low_limit :: u32 where
  "low_limit = drop_bit 14 (high_clk div 10)"

text \<open>The \<^verbatim>\<open>prescaler\<close> local of \<^verbatim>\<open>ftdi::compute_divisors\<close>.\<close>

definition prescaler :: "bool \<Rightarrow> u32 \<Rightarrow> u32" where
  "prescaler ish baudrate = (if ish \<and> baudrate > low_limit then 10 else 16)"

text \<open>The \<^verbatim>\<open>divisor\<close> local after \<^verbatim>\<open>divisor /= prescaler\<close>, in 32-bit unsigned
  arithmetic.\<close>

definition divisor :: "bool \<Rightarrow> u32 \<Rightarrow> u32" where
  "divisor ish baudrate =
     (let clk = (if ish then high_clk else low_clk);
          p = prescaler ish baudrate;
          d = push_bit 3 clk div baudrate + drop_bit 1 p - 1
      in d div p)"

text \<open>\<^verbatim>\<open>ftdi::compute_divisors\<close>, returning \<open>(value, index)\<close>. The unsigned division by a
  zero baud rate traps; that is the result \<open>None\<close>.\<close>

definition compute_divisors :: "bool \<Rightarrow> u32 \<Rightarrow> (u16 \<times> u16) option" where
  "compute_divisors ish baudrate =
     (if baudrate = 0 then None
      else let p = prescaler ish baudrate;
               d = divisor ish baudrate;
               m = mapper ! unat (d AND 7);
               index = (m AND 0x0100) OR (if p = 10 then 0x0200 else 0);
               value = ucast (drop_bit 3 d AND 0x3FFF) OR (m AND 0xC000)
           in Some (value, index))"

text \<open>\<^verbatim>\<open>ftdi::setbaudrate\<close>: one control write with the interface number OR-ed into the
  index. \<open>None\<close> is the trap of \<open>compute_divisors\<close>.\<close>

definition ftdi_setbaudrate :: "usbdev \<Rightarrow> bool \<Rightarrow> u8 \<Rightarrow> u32 \<Rightarrow> (unit ctl) option" where
  "ftdi_setbaudrate usb ish num baudrate =
     (case compute_divisors ish baudrate of
        None \<Rightarrow> None
      | Some (value, index) \<Rightarrow>
          Some (write_cv usb set_baudrate_req value (index OR ucast num)))"

section \<open>CH340/CH341 driver (ch34x.cpp)\<close>

text \<open>\<^verbatim>\<open>struct baudtable\<close> and the \<^verbatim>\<open>table\<close> of \<^verbatim>\<open>ch34x::setbaudrate\<close>.\<close>

record baudtable =
  baud :: u32
  div1 :: u16
  div2 :: u16

definition ch34x_table :: "baudtable list" where
  "ch34x_table =
     [\<lparr>baud = 2400, div1 = 0xd901, div2 = 0x0038\<rparr>,
      \<lparr>baud = 4800, div1 = 0x6402, div2 = 0x001f\<rparr>,
      \<lparr>baud = 9600, div1 = 0xb202, div2 = 0x0013\<rparr>,
      \<lparr>baud = 19200, div1 = 0xd902, div2 = 0x000d\<rparr>,
      \<lparr>baud = 38400, div1 = 0x6403, div2 = 0x000a\<rparr>,
      \<lparr>baud = 57600, div1 = 0x9803, div2 = 0x0010\<rparr>,
      \<lparr>baud = 115200, div1 = 0xcc03, div2 = 0x0008\<rparr>]"

text \<open>The \<^verbatim>\<open>for\<close> loop of \<^verbatim>\<open>ch34x::setbaudrate\<close> over the remaining table entries; falling
  off the end is the \<^verbatim>\<open>throw error_t::bad_baudrate\<close> after the loop.\<close>

fun ch34x_scan :: "usbdev \<Rightarrow> baudtable list \<Rightarrow> u32 \<Rightarrow> unit ctl" where
  "ch34x_scan usb [] baudrate = (\<lambda>log. (Inl bad_baudrate, log))"
| "ch34x_scan usb (e # es) baudrate =
     (if baud e = baudrate
      then andthen (write_cv usb 0x9a 0x1312 (div1 e)) (write_cv usb 0x9a 0x0f2c (div2 e))
      else ch34x_scan usb es baudrate)"

definition ch34x_setbaudrate :: "usbdev \<Rightarrow> u32 \<Rightarrow> unit ctl" where
  "ch34x_setbaudrate usb baudrate = ch34x_scan usb ch34x_table baudrate"

text \<open>\<^verbatim>\<open>flow_control_t\<close> of usbuart.h.\<close>

datatype flow_control_t = none_fc | rts_cts | dtr_dsr | xon_xoff

text \<open>\<^verbatim>\<open>ch34x::setflowcontrol\<close>; the \<^verbatim>\<open>int\<close> masks \<^verbatim>\<open>~(1 << 6)\<close> and \<^verbatim>\<open>~(1 << 5)\<close> are
  converted to the 16-bit parameter.\<close>

definition ch34x_setflowcontrol :: "usbdev \<Rightarrow> flow_control_t \<Rightarrow> unit ctl" where
  "ch34x_setflowcontrol usb fc =
     write_cv usb 0xa4
       (if fc = rts_cts then NOT (push_bit 6 1)
        else if fc = dtr_dsr then NOT (push_bit 5 1) else 0xFF) 0"

text \<open>\<^verbatim>\<open>ch34x::setup\<close>: baud rate, then flow control; \<^verbatim>\<open>reset\<close> and
  \<^verbatim>\<open>generic::setup\<close> are empty.\<close>

definition ch34x_setup :: "usbdev \<Rightarrow> u32 \<Rightarrow> flow_control_t \<Rightarrow> unit ctl" where
  "ch34x_setup usb baudrate fc =
     andthen (ch34x_setbaudrate usb baudrate) (ch34x_setflowcontrol usb fc)"

section \<open>Driver objects and the FTDI factory (usbuart.hpp, ftdi.cpp)\<close>

text \<open>\<^verbatim>\<open>struct interface\<close>.\<close>

record interface =
  ep_bulk_in :: u8
  ep_bulk_out :: u8
  chunk_size :: u16

text \<open>\<^verbatim>\<open>LIBUSB_ENDPOINT_IN\<close> and \<^verbatim>\<open>LIBUSB_ENDPOINT_OUT\<close> of libusb.\<close>

definition LIBUSB_ENDPOINT_IN :: u8 where
  "LIBUSB_ENDPOINT_IN = 0x80"

definition LIBUSB_ENDPOINT_OUT :: u8 where
  "LIBUSB_ENDPOINT_OUT = 0x00"

definition l_ifc :: interface where
  "l_ifc = \<lparr>ep_bulk_in = 0x1 OR LIBUSB_ENDPOINT_IN,
            ep_bulk_out = 0x2 OR LIBUSB_ENDPOINT_OUT, chunk_size = 64\<rparr>"

definition h_ifcs :: "interface list" where
  "h_ifcs =
     [\<lparr>ep_bulk_in = 0x1 OR LIBUSB_ENDPOINT_IN, ep_bulk_out = 0x2 OR LIBUSB_ENDPOINT_OUT,
       chunk_size = 64\<rparr>,
      \<lparr>ep_bulk_in = 0x3 OR LIBUSB_ENDPOINT_IN, ep_bulk_out = 0x4 OR LIBUSB_ENDPOINT_OUT,
       chunk_size = 64\<rparr>,
      \<lparr>ep_bulk_in = 0x5 OR LIBUSB_ENDPOINT_IN, ep_bulk_out = 0x6 OR LIBUSB_ENDPOINT_OUT,
       chunk_size = 64\<rparr>,
      \<lparr>ep_bulk_in = 0x7 OR LIBUSB_ENDPOINT_IN, ep_bulk_out = 0x8 OR LIBUSB_ENDPOINT_OUT,
       chunk_size = 64\<rparr>]"

definition ch34x_ifc :: interface where
  "ch34x_ifc = \<lparr>ep_bulk_in = 0x2 OR LIBUSB_ENDPOINT_IN,
                ep_bulk_out = 0x2 OR LIBUSB_ENDPOINT_OUT, chunk_size = 256\<rparr>"

definition pl2303_ifc :: interface where
  "pl2303_ifc = \<lparr>ep_bulk_in = 0x3 OR LIBUSB_ENDPOINT_IN,
                 ep_bulk_out = 0x2 OR LIBUSB_ENDPOINT_OUT, chunk_size = 256\<rparr>"

text \<open>The member \<^verbatim>\<open>interface const & ifc\<close> of \<^verbatim>\<open>generic\<close> is a reference; the FTDI
  constructor binds it to \<^verbatim>\<open>l_ifc\<close> or to \<^verbatim>\<open>h_ifcs[num]\<close> without reading it.
  \<open>getifc\<close> reads through the reference; an element past the array has no value.\<close>

datatype ifc_ref = l_ifc_ref | h_ifcs_ref nat

definition getifc :: "ifc_ref \<Rightarrow> interface option" where
  "getifc r = (case r of
       l_ifc_ref \<Rightarrow> Some l_ifc
     | h_ifcs_ref n \<Rightarrow> (if n < length h_ifcs then Some (h_ifcs ! n) else None))"

text \<open>The data members of \<^verbatim>\<open>class ftdi\<close> (with those of \<^verbatim>\<open>generic\<close> that the
  claims read).\<close>

record ftdi =
  ifc :: ifc_ref
  ifcnum :: u8
  isH :: bool
  errors :: u8

text \<open>libusb error codes and errno values used by the code.\<close>

definition LIBUSB_ERROR_NO_DEVICE :: int where "LIBUSB_ERROR_NO_DEVICE = -4"
definition LIBUSB_ERROR_NOT_FOUND :: int where "LIBUSB_ERROR_NOT_FOUND = -5"
definition LIBUSB_ERROR_BUSY :: int where "LIBUSB_ERROR_BUSY = -6"
definition EINTR :: int where "EINTR = 4"
definition EAGAIN :: int where "EAGAIN = 11"
definition EACCES :: int where "EACCES = 13"
definition EBUSY :: int where "EBUSY = 16"
definition EINVAL :: int where "EINVAL = 22"

text \<open>\<^verbatim>\<open>generic::claim_interface\<close>. The argument is what \<^verbatim>\<open>libusb_claim_interface\<close>
  answers for an interface number: its result and the \<^verbatim>\<open>errno\<close> left behind.\<close>

definition claim_interface :: "(u8 \<Rightarrow> int \<times> int) \<Rightarrow> u8 \<Rightarrow> error_t + unit" where
  "claim_interface claim num =
     (let (r, err) = claim num
      in if r = 0 then Inr ()
         else if r = LIBUSB_ERROR_NO_DEVICE then Inl no_device
         else if r = LIBUSB_ERROR_NOT_FOUND then Inl no_interface
         else if r = LIBUSB_ERROR_BUSY then Inl interface_busy
         else if err = EACCES \<or> err = - EACCES then Inl no_access
         else Inl usb_error)"

text \<open>The constructor \<^verbatim>\<open>ftdi(libusb_device_handle* d, uint8_t num, bool ish)\<close>, which runs
  \<^verbatim>\<open>generic(d, ish ? h_ifcs[num] : l_ifc, num)\<close> (claiming the interface) and then
  \<^verbatim>\<open>isH(ish)\<close>. The member \<^verbatim>\<open>errors\<close> has no initializer: its value is whatever the
  allocation holds, the argument \<open>garbage\<close>.\<close>

definition ftdi_ctor :: "(u8 \<Rightarrow> int \<times> int) \<Rightarrow> u8 \<Rightarrow> u8 \<Rightarrow> bool \<Rightarrow> error_t + ftdi" where
  "ftdi_ctor claim garbage num ish =
     (case claim_interface claim num of
        Inl e \<Rightarrow> Inl e
      | Inr _ \<Rightarrow> Inr \<lparr>ifc = (if ish then h_ifcs_ref (unat num) else l_ifc_ref),
                     ifcnum = num, isH = ish, errors = garbage\<rparr>)"

text \<open>The fields of \<^verbatim>\<open>libusb_device_descriptor\<close> that the factory reads.\<close>

record libusb_device_descriptor =
  idVendor :: u16
  idProduct :: u16
  bcdDevice :: u16

definition ftdi_table :: "u16 list" where
  "ftdi_table = [0x6001, 0x6010, 0x6011, 0x6014, 0x6015]"

definition high_speed :: "u16 list" where
  "high_speed = [0x6010, 0x6011, 0x6014]"

text \<open>The product-id loop of \<^verbatim>\<open>ftdi::factory::create\<close>: \<^verbatim>\<open>found\<close> after the loop.\<close>

fun ftdi_found :: "u16 list \<Rightarrow> u16 \<Rightarrow> bool" where
  "ftdi_found [] pid = False"
| "ftdi_found (i # is) pid = (if i = pid then True else ftdi_found is pid)"

text \<open>The local \<^verbatim>\<open>ish\<close> of \<^verbatim>\<open>ftdi::factory::create\<close> after the detection.\<close>

definition ftdi_detect :: "libusb_device_descriptor \<Rightarrow> bool" where
  "ftdi_detect desc =
     (if \<not> ftdi_found ftdi_table (idProduct desc)
      then bcdDevice desc = 0x0700 \<or> bcdDevice desc = 0x0800 \<or> bcdDevice desc = 0x0900
      else (idProduct desc = high_speed ! 0 \<and> bcdDevice desc = 0x0700)
           \<or> idProduct desc = high_speed ! 1
           \<or> idProduct desc = high_speed ! 2)"

text \<open>\<^verbatim>\<open>ftdi::factory::create\<close>. \<open>Inr None\<close> is \<^verbatim>\<open>nullptr\<close>. The last line is
  \<^verbatim>\<open>return new ftdi(handle, ish, num)\<close>: the second argument \<^verbatim>\<open>ish\<close> converts to the
  \<^verbatim>\<open>uint8_t\<close> parameter (0 or 1), the third argument \<^verbatim>\<open>num\<close> to the \<^verbatim>\<open>bool\<close>
  parameter (nonzero).\<close>

definition ftdi_create ::
  "(u8 \<Rightarrow> int \<times> int) \<Rightarrow> u8 \<Rightarrow> libusb_device_descriptor \<Rightarrow> u8 \<Rightarrow> error_t + ftdi option" where
  "ftdi_create claim garbage desc num =
     (if length h_ifcs \<le> unat num then Inl invalid_param
      else if idVendor desc \<noteq> 0x0403 then Inr None
      else let ish = ftdi_detect desc
           in if \<not> ish \<and> num \<noteq> 0 then Inl invalid_param
              else (case ftdi_ctor claim garbage (if ish then 1 else 0) (num \<noteq> 0) of
                      Inl e \<Rightarrow> Inl e
                    | Inr d \<Rightarrow> Inr (Some d)))"

section \<open>Driver registry and attach (core.cpp)\<close>

text \<open>\<^verbatim>\<open>registry::create\<close>: the factories are asked in registration order; the first
  driver wins, an exception of a factory propagates, and \<^verbatim>\<open>not_supported\<close> is thrown when
  every factory declined.\<close>

fun registry_create :: "('h \<Rightarrow> u8 \<Rightarrow> error_t + 'd option) list \<Rightarrow> 'h \<Rightarrow> u8 \<Rightarrow> error_t + 'd" where
  "registry_create [] dev ident = Inl not_supported"
| "registry_create (factory # list) dev ident =
     (case factory dev ident of
        Inl e \<Rightarrow> Inl e
      | Inr (Some drv) \<Rightarrow> Inr drv
      | Inr None \<Rightarrow> registry_create list dev ident)"

text \<open>\<^verbatim>\<open>throw_error\<close> of core.cpp: \<open>Inr ()\<close> is the plain \<^verbatim>\<open>return\<close> for
  \<^verbatim>\<open>EAGAIN\<close> and \<^verbatim>\<open>EINTR\<close>.\<close>

definition throw_error :: "int \<Rightarrow> error_t + unit" where
  "throw_error err =
     (let e = (if err < 0 then - err else err)
      in if e = EAGAIN \<or> e = EINTR then Inr ()
         else if e = EBUSY then Inl interface_busy
         else if e = EACCES then Inl no_access
         else Inl io_error)"

text \<open>\<^verbatim>\<open>backend::create\<close>: \<open>opened\<close> is the result of \<^verbatim>\<open>libusb_open\<close> and the
  \<^verbatim>\<open>errno\<close> it left, \<open>devh\<close> the handle a successful open stores. When the open failed
  and \<^verbatim>\<open>throw_error\<close> returns all the same (a result or \<^verbatim>\<open>errno\<close> of magnitude \<^verbatim>\<open>EAGAIN\<close>
  or \<^verbatim>\<open>EINTR\<close>), the code goes on with a handle that was never assigned: that run has no
  defined result, \<open>None\<close>.\<close>

definition backend_create ::
  "('h \<Rightarrow> u8 \<Rightarrow> error_t + 'd option) list \<Rightarrow> int \<times> int \<Rightarrow> 'h \<Rightarrow> u8 \<Rightarrow>
   (error_t + 'd) option" where
  "backend_create factories opened devh ident =
     (let (res, err) = opened
      in if res \<noteq> 0
         then (case throw_error (if err = 0 then res else err) of
                 Inl e \<Rightarrow> Some (Inl e)
               | Inr _ \<Rightarrow> None)
         else Some (registry_create factories devh ident))"

text \<open>\<^verbatim>\<open>backend::attach(libusb_device*, ...)\<close> up to the driver: \<open>dev\<close> is \<open>None\<close> for
  \<^verbatim>\<open>nullptr\<close>; \<open>rest\<close> stands for everything after \<^verbatim>\<open>create\<close> returned a driver
  (building the channel, \<^verbatim>\<open>setup\<close>, \<^verbatim>\<open>init\<close>). \<open>None\<close> is the undefined run of
  \<open>backend_create\<close>.\<close>

definition backend_attach ::
  "('h \<Rightarrow> u8 \<Rightarrow> error_t + 'd option) list \<Rightarrow> int \<times> int \<Rightarrow> ('d \<Rightarrow> error_t + int) \<Rightarrow>
   'h option \<Rightarrow> u8 \<Rightarrow> (error_t + int) option" where
  "backend_attach factories opened rest dev ifc_index =
     (case dev of
        None \<Rightarrow> Some (Inr (- error_int no_device))
      | Some h \<Rightarrow>
          (case backend_create factories opened h ifc_index of
             None \<Rightarrow> None
           | Some (Inl e) \<Rightarrow> Some (Inl e)
           | Some (Inr drv) \<Rightarrow> Some (rest drv)))"

section \<open>Transfers, drivers and the world outside (libusb, system calls)\<close>

text \<open>\<^verbatim>\<open>enum libusb_transfer_status\<close>; the last constructor stands for any other value,
  which \<^verbatim>\<open>error_callback\<close> handles after its \<^verbatim>\<open>switch\<close>.\<close>

datatype libusb_transfer_status =
    LIBUSB_TRANSFER_COMPLETED | LIBUSB_TRANSFER_ERROR | LIBUSB_TRANSFER_TIMED_OUT
  | LIBUSB_TRANSFER_CANCELLED | LIBUSB_TRANSFER_STALL | LIBUSB_TRANSFER_NO_DEVICE
  | LIBUSB_TRANSFER_OVERFLOW | LIBUSB_TRANSFER_unknown int

text \<open>The fields of \<^verbatim>\<open>libusb_transfer\<close> the channel reads and writes (\<open>xstatus\<close> is
  \<^verbatim>\<open>status\<close>, \<open>xlength\<close> is \<^verbatim>\<open>length\<close>).\<close>

record libusb_transfer =
  xstatus :: libusb_transfer_status
  xlength :: int
  actual_length :: int
  buffer :: "u8 list"

text \<open>The three transfers of a channel: \<open>RX False\<close> is \<^verbatim>\<open>readxfer0\<close>, \<open>RX True\<close> is
  \<^verbatim>\<open>readxfer1\<close> (the index \<^verbatim>\<open>readxfer == readxfer1\<close>), \<open>WX\<close> is \<^verbatim>\<open>writexfer\<close>.\<close>

datatype xfer = RX bool | WX

text \<open>The driver object behind \<^verbatim>\<open>driver*\<close>.\<close>

datatype driver = Ftdi ftdi | Ch34x | Pl2303 | Pl2303hx

definition drv_getifc :: "driver \<Rightarrow> interface option" where
  "drv_getifc d = (case d of
       Ftdi f \<Rightarrow> getifc (ifc f)
     | Ch34x \<Rightarrow> Some ch34x_ifc
     | Pl2303 \<Rightarrow> Some pl2303_ifc
     | Pl2303hx \<Rightarrow> Some pl2303_ifc)"

text \<open>\<^verbatim>\<open>ftdi::error_mask\<close>, from the \<^verbatim>\<open>status_bit\<close> positions overrun 1, parity 2,
  framing 3, break 4.\<close>

definition error_mask :: u8 where
  "error_mask = push_bit 4 1 OR push_bit 3 1 OR push_bit 2 1 OR push_bit 1 1"

text \<open>\<^verbatim>\<open>ftdi::read_callback(readxfer, readpos)\<close>: returns the driver, the transfer and the
  position as it leaves them.\<close>

definition ftdi_read_callback ::
  "ftdi \<Rightarrow> libusb_transfer \<Rightarrow> u16 \<Rightarrow> ftdi \<times> libusb_transfer \<times> u16" where
  "ftdi_read_callback d x pos =
     (if actual_length x < 2 then (d, x\<lparr>actual_length := 0\<rparr>, pos)
      else let err = (buffer x ! 1) AND error_mask
           in ((if err \<noteq> 0 then d\<lparr>errors := errors d OR err\<rparr> else d), x, 2))"

text \<open>\<^verbatim>\<open>generic::read_callback\<close> and \<^verbatim>\<open>ch34x::read_callback\<close>: \<^verbatim>\<open>pos = 0\<close>; the
  virtual call dispatches on the driver.\<close>

definition drv_read_callback ::
  "driver \<Rightarrow> libusb_transfer \<Rightarrow> u16 \<Rightarrow> driver \<times> libusb_transfer \<times> u16" where
  "drv_read_callback d x pos = (case d of
       Ftdi f \<Rightarrow> (let (f', x', pos') = ftdi_read_callback f x pos in (Ftdi f', x', pos'))
     | Ch34x \<Rightarrow> (d, x, 0)
     | Pl2303 \<Rightarrow> (d, x, 0)
     | Pl2303hx \<Rightarrow> (d, x, 0))"

text \<open>\<^verbatim>\<open>struct pollfd\<close> and the poll event bits.\<close>

record pollfd =
  fd :: int
  events :: int
  revents :: int

definition POLLIN :: int where "POLLIN = 0x001"
definition POLLOUT :: int where "POLLOUT = 0x004"
definition POLLHUP :: int where "POLLHUP = 0x010"

text \<open>What the code did to the outside world, in order: \<open>SysWrite f data res\<close> is
  \<^verbatim>\<open>write(f, data, |data|)\<close> answering \<open>res\<close>; \<open>UsbSubmit c x err\<close> and \<open>UsbCancel c x\<close>
  are \<^verbatim>\<open>libusb_submit_transfer\<close> and \<^verbatim>\<open>libusb_cancel_transfer\<close> on transfer \<open>x\<close> of
  channel \<open>c\<close>; \<open>UsbFree\<close>, \<open>UsbRelease\<close> and \<open>UsbClose\<close> are
  \<^verbatim>\<open>libusb_free_transfer\<close>, \<^verbatim>\<open>libusb_release_interface\<close> and \<^verbatim>\<open>libusb_close\<close>.\<close>

datatype event =
    SysWrite int "u8 list" int
  | SysRead int nat int
  | SysClose int
  | UsbSubmit nat xfer int
  | UsbCancel nat xfer
  | UsbFree nat xfer
  | UsbRelease nat
  | UsbClose nat

section \<open>File channel (core.cpp)\<close>

text \<open>The data members of \<^verbatim>\<open>class file_channel\<close>. The arrays \<^verbatim>\<open>readpos[2]\<close> and
  \<^verbatim>\<open>readxfer_busy[2]\<close> are indexed by \<^verbatim>\<open>readxfer == readxfer1\<close>; \<open>readxfer\<close> holds the
  objects behind \<^verbatim>\<open>readxfer0\<close> and \<^verbatim>\<open>readxfer1\<close> under the same index, and \<open>current\<close>
  is that index for the pointer \<^verbatim>\<open>current\<close>.\<close>

record file_channel =
  readxfer :: "bool \<Rightarrow> libusb_transfer"
  current :: bool
  writexfer :: libusb_transfer
  readpos :: "bool \<Rightarrow> u16"
  readxfer_busy :: "bool \<Rightarrow> bool"
  writexfer_busy :: bool
  fdrd :: int
  fdrw :: int
  drv :: driver
  pipein_ready :: bool
  pipeout_ready :: bool
  pipein_hangup :: bool
  pipeout_hangup :: bool
  device_hangup :: bool

text \<open>\<^verbatim>\<open>class pipe_channel : public file_channel\<close>.\<close>

record pipe_channel =
  base :: file_channel
  exrd :: int
  exrw :: int

datatype channel_obj = File_channel file_channel | Pipe_channel pipe_channel

fun base_of :: "channel_obj \<Rightarrow> file_channel" where
  "base_of (File_channel c) = c"
| "base_of (Pipe_channel p) = base p"

fun with_base :: "channel_obj \<Rightarrow> file_channel \<Rightarrow> channel_obj" where
  "with_base (File_channel c) c' = File_channel c'"
| "with_base (Pipe_channel p) c' = Pipe_channel (p\<lparr>base := c'\<rparr>)"

text \<open>The data members of \<^verbatim>\<open>context::backend\<close>; channels are referred to by address,
  \<open>channels\<close> is the memory holding them, and \<open>trace\<close> is the log of outside calls.\<close>

record backend =
  poll_list :: "pollfd list"
  child_list :: "nat list"
  delete_list :: "nat list"
  pending :: bool
  channels :: "nat \<rightharpoonup> channel_obj"
  trace :: "event list"

text \<open>The answers of the outside world: \<open>sys_write f data\<close> is the result of
  \<^verbatim>\<open>write(2)\<close> and the \<^verbatim>\<open>errno\<close> after it; \<open>sys_read f size\<close> the result, \<^verbatim>\<open>errno\<close> and
  the bytes stored; \<open>usb_submit c x\<close> the result of \<^verbatim>\<open>libusb_submit_transfer\<close>;
  \<open>sys_poll list timeout\<close> the result of \<^verbatim>\<open>poll(2)\<close>, \<^verbatim>\<open>errno\<close> and the list with
  \<^verbatim>\<open>revents\<close> filled in; \<open>usb_pollfds\<close> is \<^verbatim>\<open>libusb_get_pollfds\<close>; \<open>usb_handle_events\<close>
  is \<^verbatim>\<open>libusb_handle_events_timeout\<close>, which runs the completion callbacks.\<close>

record sys =
  sys_write :: "int \<Rightarrow> u8 list \<Rightarrow> int \<times> int"
  sys_read :: "int \<Rightarrow> nat \<Rightarrow> int \<times> int \<times> u8 list"
  usb_submit :: "nat \<Rightarrow> xfer \<Rightarrow> int"
  sys_poll :: "pollfd list \<Rightarrow> int \<Rightarrow> int \<times> int \<times> pollfd list"
  usb_pollfds :: "pollfd list"
  usb_handle_events :: "int \<Rightarrow> backend \<Rightarrow> int \<times> backend"

type_synonym chst = "file_channel \<times> backend"

text \<open>\<^verbatim>\<open>backend::poll_request\<close>.\<close>

definition backend_poll_request :: "int \<Rightarrow> int \<Rightarrow> backend \<Rightarrow> backend" where
  "backend_poll_request f ev b =
     (if \<exists>p \<in> set (poll_list b). fd p = f then b
      else b\<lparr>poll_list := poll_list b @ [\<lparr>fd = f, events = ev, revents = 0\<rparr>]\<rparr>)"

text \<open>\<^verbatim>\<open>file_channel::poll_request\<close>.\<close>

definition poll_request :: "int \<Rightarrow> bool \<Rightarrow> chst \<Rightarrow> chst" where
  "poll_request f reading st =
     (fst st, backend_poll_request f (if reading then POLLIN OR POLLHUP else POLLOUT OR POLLHUP)
        (snd st))"

text \<open>\<^verbatim>\<open>backend::request_removal\<close>.\<close>

definition backend_request_removal :: "nat \<Rightarrow> backend \<Rightarrow> backend" where
  "backend_request_removal child b =
     (let b1 = b\<lparr>child_list := removeAll child (child_list b)\<rparr>
      in if child \<in> set (delete_list b1) then b1
         else b1\<lparr>delete_list := delete_list b1 @ [child]\<rparr>)"

text \<open>\<^verbatim>\<open>file_channel::close\<close>; \<open>self\<close> is \<^verbatim>\<open>this\<close>.\<close>

definition close :: "nat \<Rightarrow> chst \<Rightarrow> bool \<times> chst" where
  "close self st =
     (let ch = fst st; b = snd st;
          t1 = (if writexfer_busy ch then [UsbCancel self WX] else []);
          t2 = (if readxfer_busy ch False then [UsbCancel self (RX False)] else []);
          t3 = (if readxfer_busy ch True then [UsbCancel self (RX True)] else [])
      in (\<not> (readxfer_busy ch False \<or> readxfer_busy ch True \<or> writexfer_busy ch),
          ch\<lparr>pipein_hangup := True, pipeout_hangup := True\<rparr>,
          b\<lparr>trace := trace b @ t1 @ t2 @ t3\<rparr>))"

text \<open>\<^verbatim>\<open>file_channel::request_removal\<close>.\<close>

definition request_removal :: "nat \<Rightarrow> bool \<Rightarrow> chst \<Rightarrow> chst" where
  "request_removal self enforce st =
     (let ch = (fst st)\<lparr>device_hangup := device_hangup (fst st) \<or> enforce\<rparr>
      in if device_hangup ch \<or> (pipein_hangup ch \<and> pipeout_hangup ch)
         then (let (ok, ch', b') = close self (ch, snd st)
               in (ch', backend_request_removal self b'))
         else (ch, snd st))"

text \<open>\<^verbatim>\<open>file_channel::is_error\<close>; \<open>err\<close> is \<^verbatim>\<open>errno\<close>.\<close>

definition is_error :: "nat \<Rightarrow> int \<Rightarrow> int \<Rightarrow> chst \<Rightarrow> bool \<times> chst" where
  "is_error self err res st =
     (if err = EAGAIN then (False, st)
      else if err = EINTR then (False, st)
      else if err = 0 \<and> res = 0 then (False, st)
      else (True, request_removal self False st))"

text \<open>\<^verbatim>\<open>file_channel::submit_transfer\<close>.\<close>

definition submit_transfer :: "sys \<Rightarrow> nat \<Rightarrow> xfer \<Rightarrow> chst \<Rightarrow> bool \<times> chst" where
  "submit_transfer w self x st =
     (let err = usb_submit w self x;
          b = (snd st)\<lparr>trace := trace (snd st) @ [UsbSubmit self x err]\<rparr>
      in if err = 0 then (True, fst st, b)
         else (False, request_removal self True (fst st, b)))"

text \<open>\<^verbatim>\<open>file_channel::getreadbuff\<close>: the pointer \<^verbatim>\<open>buffer + readpos[i]\<close> is returned as
  the offset, \<open>None\<close> is \<^verbatim>\<open>nullptr\<close>; \<^verbatim>\<open>size\<close> is the 16-bit \<^verbatim>\<open>usbuart::size_t\<close>.\<close>

definition getreadbuff :: "file_channel \<Rightarrow> bool \<Rightarrow> nat option \<times> u16" where
  "getreadbuff ch i =
     (if readxfer_busy ch i then (None, 0)
      else (Some (unat (readpos ch i)),
            word_of_int (actual_length (readxfer ch i) - uint (readpos ch i))))"

text \<open>\<^verbatim>\<open>file_channel::consumed\<close>.\<close>

definition consumed :: "sys \<Rightarrow> nat \<Rightarrow> bool \<Rightarrow> u16 \<Rightarrow> chst \<Rightarrow> bool \<times> chst" where
  "consumed w self i sz st =
     (let ch = fst st
      in if readxfer_busy ch i then (False, st)
         else let pos = readpos ch i + sz;
                  ch1 = ch\<lparr>readpos := (readpos ch)(i := pos)\<rparr>
              in if actual_length (readxfer ch1 i) \<le> uint pos
                 then (let (ok, ch2, b2) = submit_transfer w self (RX i) (ch1, snd st)
                       in (True, ch2\<lparr>readxfer_busy := (readxfer_busy ch2)(i := ok),
                                     current := \<not> i\<rparr>, b2))
                 else (False, ch1, snd st))"

text \<open>\<^verbatim>\<open>file_channel::writepipe\<close>. The bytes handed to \<^verbatim>\<open>write(2)\<close> are the \<^verbatim>\<open>size\<close>
  bytes of the transfer buffer from the returned offset, as far as the buffer holds them.
  A size that reaches past the end of the buffer (it arises only when \<^verbatim>\<open>readpos\<close> exceeds
  \<^verbatim>\<open>actual_length\<close> and the 16-bit subtraction in \<open>getreadbuff\<close> wraps) makes the code read
  past the allocation; the list shows the bytes inside the buffer only, so results about
  \<open>writepipe\<close> are stated for \<open>readpos \<le> actual_length\<close>, and the wrapped size itself is
  read off \<open>getreadbuff\<close>.\<close>

definition writepipe :: "sys \<Rightarrow> nat \<Rightarrow> bool \<Rightarrow> chst \<Rightarrow> chst" where
  "writepipe w self i st =
     (let ch = fst st; (buff, sz) = getreadbuff ch i
      in if sz = 0 then st
         else let data = take (unat sz) (drop (case buff of None \<Rightarrow> 0 | Some off \<Rightarrow> off)
                           (buffer (readxfer ch i)));
                  (res, err) = sys_write w (fdrw ch) data;
                  st1 = (ch, (snd st)\<lparr>trace := trace (snd st) @ [SysWrite (fdrw ch) data res]\<rparr>)
              in if res \<le> 0
                 then (let (bad, ch2, b2) = is_error self err res st1
                       in if bad then (ch2\<lparr>pipeout_hangup := True\<rparr>, b2) else (ch2, b2))
                 else (let (done, st2) = consumed w self i (word_of_int res) st1
                       in if \<not> done then poll_request (fdrw (fst st2)) False st2 else st2))"

text \<open>\<^verbatim>\<open>file_channel::read_callback\<close>, the channel's handler for a completed IN
  transfer.\<close>

definition read_callback :: "sys \<Rightarrow> nat \<Rightarrow> bool \<Rightarrow> chst \<Rightarrow> chst" where
  "read_callback w self i st =
     (let ch = fst st;
          (d', x', pos') = drv_read_callback (drv ch) (readxfer ch i) (readpos ch i);
          ch1 = ch\<lparr>drv := d', readxfer := (readxfer ch)(i := x'),
                   readpos := (readpos ch)(i := pos')\<rparr>
      in if pipeout_hangup ch1 then (ch1, snd st)
         else if actual_length (readxfer ch1 i) \<le> uint (readpos ch1 i)
         then (let (ok, ch2, b2) = submit_transfer w self (RX i) (ch1, snd st)
               in (ch2\<lparr>readxfer_busy := (readxfer_busy ch2)(i := ok)\<rparr>, b2))
         else writepipe w self i
                (ch1\<lparr>readxfer_busy := (readxfer_busy ch1)(i := False)\<rparr>, snd st))"

text \<open>The transfer object an \<open>xfer\<close> designates.\<close>

definition xfer_of :: "file_channel \<Rightarrow> xfer \<Rightarrow> libusb_transfer" where
  "xfer_of ch x = (case x of RX i \<Rightarrow> readxfer ch i | WX \<Rightarrow> writexfer ch)"

text \<open>\<^verbatim>\<open>file_channel::error_callback\<close>.\<close>

definition error_callback :: "nat \<Rightarrow> xfer \<Rightarrow> chst \<Rightarrow> bool \<times> chst" where
  "error_callback self x st =
     (let ch = fst st;
          ch1 = (case x of
                   RX i \<Rightarrow> ch\<lparr>readxfer_busy := (readxfer_busy ch)(i := False)\<rparr>
                 | WX \<Rightarrow> ch\<lparr>writexfer_busy := False\<rparr>);
          s = xstatus (xfer_of ch1 x)
      in if s = LIBUSB_TRANSFER_CANCELLED \<or> s = LIBUSB_TRANSFER_NO_DEVICE
         then (False, request_removal self True (ch1, snd st))
         else if s = LIBUSB_TRANSFER_TIMED_OUT \<or> s = LIBUSB_TRANSFER_COMPLETED
         then (False, ch1, snd st)
         else if s = LIBUSB_TRANSFER_ERROR \<or> s = LIBUSB_TRANSFER_STALL
                 \<or> s = LIBUSB_TRANSFER_OVERFLOW
         then (True, request_removal self True (ch1, snd st))
         else (False, ch1, snd st))"

text \<open>\<^verbatim>\<open>file_channel::read_cb\<close>, the completion callback libusb invokes for an IN
  transfer (\<^verbatim>\<open>user_data\<close> is the channel).\<close>

definition read_cb :: "sys \<Rightarrow> nat \<Rightarrow> bool \<Rightarrow> chst \<Rightarrow> chst" where
  "read_cb w self i st =
     (if xstatus (readxfer (fst st) i) = LIBUSB_TRANSFER_COMPLETED
      then read_callback w self i st
      else (let (go, st1) = error_callback self (RX i) st
            in if go then read_callback w self i st1 else st1))"

text \<open>\<^verbatim>\<open>file_channel::status\<close>, with \<^verbatim>\<open>read_pipe_ok = 1\<close>, \<^verbatim>\<open>write_pipe_ok = 2\<close>,
  \<^verbatim>\<open>usb_dev_ok = 4\<close> of \<^verbatim>\<open>status_t\<close>.\<close>

definition read_pipe_ok :: int where "read_pipe_ok = 1"
definition write_pipe_ok :: int where "write_pipe_ok = 2"
definition usb_dev_ok :: int where "usb_dev_ok = 4"

definition status :: "file_channel \<Rightarrow> int" where
  "status ch =
     (if pipein_hangup ch then 0 else read_pipe_ok) OR
     (if pipeout_hangup ch then 0 else write_pipe_ok) OR
     (if device_hangup ch then 0 else usb_dev_ok)"

text \<open>\<^verbatim>\<open>backend::find(const channel&)\<close> and \<^verbatim>\<open>context::status\<close>: the first live child
  whose descriptors match and that is not on the delete list.\<close>

fun obj_equals :: "channel_obj \<Rightarrow> int \<times> int \<Rightarrow> bool" where
  "obj_equals (File_channel c) (r, wr) = (r = fdrd c \<or> wr = fdrw c)"
| "obj_equals (Pipe_channel p) (r, wr) = (r = exrd p \<or> wr = exrw p)"

fun backend_find :: "backend \<Rightarrow> nat list \<Rightarrow> int \<times> int \<Rightarrow> nat option" where
  "backend_find b [] chn = None"
| "backend_find b (i # rest) chn =
     (case channels b i of
        None \<Rightarrow> backend_find b rest chn
      | Some obj \<Rightarrow>
          (if obj_equals obj chn \<and> i \<notin> set (delete_list b) then Some i
           else backend_find b rest chn))"

definition context_status :: "backend \<Rightarrow> int \<times> int \<Rightarrow> int" where
  "context_status b chn =
     safe (case backend_find b (child_list b) chn of
             None \<Rightarrow> Inr (- error_int no_channel)
           | Some c \<Rightarrow> (case channels b c of
                          None \<Rightarrow> Inr (- error_int no_channel)
                        | Some obj \<Rightarrow> Inr (status (base_of obj))))"

section \<open>Outbound direction and channel start-up (core.cpp)\<close>

text \<open>\<^verbatim>\<open>file_channel::chunksize\<close> reads \<^verbatim>\<open>drv->getifc().chunk_size\<close>; \<open>None\<close> when the
  driver's interface reference designates no object.\<close>

definition chunksize :: "file_channel \<Rightarrow> u16 option" where
  "chunksize ch = map_option chunk_size (drv_getifc (drv ch))"

text \<open>\<^verbatim>\<open>file_channel::getwritebuff\<close>: the buffer pointer (\<open>None\<close> is \<^verbatim>\<open>nullptr\<close>, \<open>Some 0\<close>
  the buffer start) and the size.\<close>

definition getwritebuff :: "file_channel \<Rightarrow> (nat option \<times> u16) option" where
  "getwritebuff ch =
     (if writexfer_busy ch then Some (None, 0)
      else map_option (\<lambda>n. (Some 0, n)) (chunksize ch))"

text \<open>\<^verbatim>\<open>file_channel::submit\<close>.\<close>

definition submit :: "sys \<Rightarrow> nat \<Rightarrow> u16 \<Rightarrow> chst \<Rightarrow> chst" where
  "submit w self sz st =
     (let ch = (fst st)\<lparr>writexfer := (writexfer (fst st))\<lparr>xlength := uint sz\<rparr>\<rparr>;
          (ok, ch2, b2) = submit_transfer w self WX (ch, snd st)
      in (ch2\<lparr>writexfer_busy := ok\<rparr>, b2))"

text \<open>\<^verbatim>\<open>file_channel::readpipe\<close>: \<^verbatim>\<open>read(2)\<close> stores its bytes at the start of the
  write-transfer buffer.\<close>

definition readpipe :: "sys \<Rightarrow> nat \<Rightarrow> chst \<Rightarrow> chst option" where
  "readpipe w self st =
     (case getwritebuff (fst st) of
        None \<Rightarrow> None
      | Some (buff, sz) \<Rightarrow>
          (let ch = fst st;
               (res, err, data) = sys_read w (fdrd ch) (unat sz);
               stored = (if 0 < res \<and> buff \<noteq> None
                         then take (nat res) data @ drop (nat res) (buffer (writexfer ch))
                         else buffer (writexfer ch));
               st1 = (ch\<lparr>writexfer := (writexfer ch)\<lparr>buffer := stored\<rparr>\<rparr>,
                      (snd st)\<lparr>trace := trace (snd st) @ [SysRead (fdrd ch) (unat sz) res]\<rparr>)
           in Some
               (if res \<le> 0
                then (let (bad, ch2, b2) = is_error self err res st1
                      in if bad then (ch2\<lparr>pipein_hangup := True\<rparr>, b2)
                         else if res = 0 then (ch2\<lparr>pipein_hangup := True\<rparr>, b2)
                         else poll_request (fdrd ch2) True (ch2, b2))
                else submit w self (word_of_int res) st1)))"

text \<open>\<^verbatim>\<open>file_channel::events\<close>.\<close>

definition channel_events :: "sys \<Rightarrow> nat \<Rightarrow> chst \<Rightarrow> chst option" where
  "channel_events w self st =
     (case (if pipein_ready (fst st) then readpipe w self st else Some st) of
        None \<Rightarrow> None
      | Some st1 \<Rightarrow>
          Some (if pipeout_ready (fst st1) then writepipe w self (current (fst st1)) st1
                else st1))"

text \<open>\<^verbatim>\<open>file_channel::set_events\<close>.\<close>

definition set_events :: "nat \<Rightarrow> int \<Rightarrow> bool \<Rightarrow> chst \<Rightarrow> chst" where
  "set_events self ev rd st =
     (let ch = fst st;
          ch1 = (if ev AND POLLIN \<noteq> 0 then ch\<lparr>pipein_ready := True\<rparr> else ch);
          ch2 = (if ev AND POLLOUT \<noteq> 0 then ch1\<lparr>pipeout_ready := True\<rparr> else ch1)
      in if ev AND POLLHUP \<noteq> 0
         then request_removal self False
                ((if rd then ch2\<lparr>pipein_hangup := True\<rparr> else ch2\<lparr>pipeout_hangup := True\<rparr>),
                 snd st)
         else (ch2, snd st))"

text \<open>The member initializers of the \<^verbatim>\<open>file_channel\<close> constructor followed by
  \<^verbatim>\<open>file_channel::init\<close>. \<open>bufs\<close> are the three \<^verbatim>\<open>malloc\<close> results for the read buffers 0
  and 1 and the write buffer (\<open>None\<close> a failed allocation), \<open>xfers_ok\<close> tells whether the
  three \<^verbatim>\<open>libusb_alloc_transfer\<close> calls succeeded; a fresh transfer is zero-filled. The
  outer \<open>None\<close> is \<open>chunksize\<close> without a value.\<close>

definition file_channel_init ::
  "sys \<Rightarrow> nat \<Rightarrow> int \<times> int \<Rightarrow> driver \<Rightarrow> u8 list option \<times> u8 list option \<times> u8 list option \<Rightarrow>
   bool \<Rightarrow> backend \<Rightarrow> (error_t + chst) option" where
  "file_channel_init w self chn d bufs xfers_ok b =
     (case map_option chunk_size (drv_getifc d) of
        None \<Rightarrow> None
      | Some n \<Rightarrow>
          (case bufs of
             (Some readbuff0, Some readbuff1, Some writebuff) \<Rightarrow>
               (if \<not> xfers_ok then Some (Inl out_of_memory)
                else
                  (let rx = (\<lambda>buf. \<lparr>xstatus = LIBUSB_TRANSFER_COMPLETED, xlength = uint n,
                                     actual_length = 0, buffer = buf\<rparr>);
                       ch = \<lparr>readxfer = (\<lambda>i. if i then rx readbuff1 else rx readbuff0),
                             current = False,
                             writexfer = \<lparr>xstatus = LIBUSB_TRANSFER_COMPLETED, xlength = 0,
                                          actual_length = 0, buffer = writebuff\<rparr>,
                             readpos = (\<lambda>i. 0),
                             readxfer_busy = (\<lambda>i. False),
                             writexfer_busy = False,
                             fdrd = fst chn, fdrw = snd chn, drv = d,
                             pipein_ready = False, pipeout_ready = False,
                             pipein_hangup = False, pipeout_hangup = False,
                             device_hangup = False\<rparr>;
                       (ok0, ch0, b0) = submit_transfer w self (RX False) (ch, b);
                       ch0' = ch0\<lparr>readxfer_busy := (readxfer_busy ch0)(False := ok0)\<rparr>;
                       (ok1, ch1, b1) = submit_transfer w self (RX True) (ch0', b0);
                       ch1' = ch1\<lparr>readxfer_busy := (readxfer_busy ch1)(True := ok1)\<rparr>
                   in map_option Inr (readpipe w self (ch1', b1))))
           | _ \<Rightarrow> Some (Inl out_of_memory)))"

section \<open>Context backend and facade (core.cpp)\<close>

text \<open>Run a channel method on the object at address \<open>c\<close> and store the object back.\<close>

definition on_child :: "nat \<Rightarrow> (chst \<Rightarrow> chst) \<Rightarrow> backend \<Rightarrow> backend" where
  "on_child c m b =
     (case channels b c of
        None \<Rightarrow> b
      | Some obj \<Rightarrow>
          (let (ch', b') = m (base_of obj, b)
           in b'\<lparr>channels := (channels b')(c \<mapsto> with_base obj ch')\<rparr>))"

text \<open>\<^verbatim>\<open>util::find(child_list, item)\<close> with
  \<^verbatim>\<open>operator==(const file_channel*, const pollfd&)\<close>: the first child one of whose
  descriptors is the item's.\<close>

fun find_child :: "backend \<Rightarrow> nat list \<Rightarrow> int \<Rightarrow> nat option" where
  "find_child b [] f = None"
| "find_child b (c # cs) f =
     (case channels b c of
        None \<Rightarrow> find_child b cs f
      | Some obj \<Rightarrow>
          (if fdrd (base_of obj) = f \<or> fdrw (base_of obj) = f then Some c
           else find_child b cs f))"

text \<open>The \<^verbatim>\<open>for\<close> loop of \<^verbatim>\<open>backend::poll_events\<close> over the remaining items of the
  working copy \<^verbatim>\<open>pollfd_list\<close>.\<close>

fun poll_dispatch :: "pollfd list \<Rightarrow> int \<Rightarrow> backend \<Rightarrow> int \<times> backend" where
  "poll_dispatch [] polled b = (polled, b)"
| "poll_dispatch (item # rest) polled b =
     (if polled = 0 then (polled, b)
      else (case find_child b (child_list b) (fd item) of
              None \<Rightarrow> poll_dispatch rest polled b
            | Some child \<Rightarrow>
                (if revents item \<noteq> 0
                 then (let b1 = on_child child
                                  (\<lambda>st. set_events child (revents item)
                                          (fd item = fdrd (fst st)) st) b;
                           b2 = b1\<lparr>poll_list := filter (\<lambda>p. fd p \<noteq> fd item) (poll_list b1),
                                   pending := True\<rparr>
                       in poll_dispatch rest (polled - 1) b2)
                 else poll_dispatch rest polled b)))"

text \<open>\<^verbatim>\<open>backend::poll_events\<close>. \<^verbatim>\<open>poll(2)\<close> is called on \<^verbatim>\<open>poll_list\<close> itself, the loop
  runs over the copy taken before. The result is the thrown error or the returned count,
  with the backend as the call leaves it.\<close>

definition poll_events :: "sys \<Rightarrow> int \<Rightarrow> backend \<Rightarrow> (error_t + int) \<times> backend" where
  "poll_events w timeout b =
     (if poll_list b = [] then (Inr 0, b)
      else let pollfd_list = poll_list b @ usb_pollfds w;
               (polled, err, polled_list) = sys_poll w (poll_list b) timeout;
               b1 = b\<lparr>poll_list := polled_list\<rparr>
           in if polled < 0
              then (if polled = EINVAL then (Inl poll_error, b1)
                    else (case throw_error err of
                            Inl e \<Rightarrow> (Inl e, b1)
                          | Inr _ \<Rightarrow> (Inr polled, b1)))
              else (let (n, b2) = poll_dispatch pollfd_list polled b1 in (Inr n, b2)))"

text \<open>\<^verbatim>\<open>backend::handle_events\<close>; \<^verbatim>\<open>handle_libusb_events\<close> is the libusb call.\<close>

definition handle_events :: "sys \<Rightarrow> int \<Rightarrow> backend \<Rightarrow> (error_t + int) \<times> backend" where
  "handle_events w timeout b =
     (if poll_list b = []
      then (let (r, b') = usb_handle_events w timeout b in (Inr r, b'))
      else (case poll_events w timeout b of
              (Inl e, b1) \<Rightarrow> (Inl e, b1)
            | (Inr res, b1) \<Rightarrow>
                (if 0 \<le> res
                 then (let (r, b') = usb_handle_events w timeout b1 in (Inr r, b'))
                 else (Inr res, b1))))"

text \<open>\<^verbatim>\<open>backend::handle_pending_events\<close>: the iterator is the index \<open>k\<close> into
  \<^verbatim>\<open>child_list\<close>, compared with \<^verbatim>\<open>end()\<close> by \<^verbatim>\<open>!=\<close>; \<open>None\<close> when the loop does not
  return (the iterator is past the end after a channel removed itself) or a channel has
  no chunk size.\<close>

partial_function (option) pending_from :: "sys \<Rightarrow> nat \<Rightarrow> backend \<Rightarrow> backend option" where
  "pending_from w k b =
     (if k = length (child_list b) then Some (b\<lparr>pending := False\<rparr>)
      else if length (child_list b) < k then None
      else (let c = child_list b ! k
            in case channels b c of
                 None \<Rightarrow> None
               | Some obj \<Rightarrow>
                   (case channel_events w c (base_of obj, b) of
                      None \<Rightarrow> None
                    | Some (ch', b') \<Rightarrow>
                        pending_from w (Suc k)
                          (b'\<lparr>channels := (channels b')(c \<mapsto> with_base obj ch')\<rparr>))))"

declare pending_from.simps [code]

definition handle_pending_events :: "sys \<Rightarrow> backend \<Rightarrow> backend option" where
  "handle_pending_events w b = pending_from w 0 b"

text \<open>\<^verbatim>\<open>file_channel::busy\<close>.\<close>

definition busy :: "file_channel \<Rightarrow> bool" where
  "busy ch = (writexfer_busy ch \<or> readxfer_busy ch False \<or> readxfer_busy ch True)"

text \<open>The destructors: \<^verbatim>\<open>~pipe_channel\<close> closes four descriptors, then
  \<^verbatim>\<open>~file_channel\<close> frees the transfers in the order write, read 1, read 0, deletes the
  driver (which releases the interface) and closes the device.\<close>

definition file_channel_dtor :: "nat \<Rightarrow> event list" where
  "file_channel_dtor self =
     [UsbFree self WX, UsbFree self (RX True), UsbFree self (RX False),
      UsbRelease self, UsbClose self]"

definition pipe_channel_dtor :: "nat \<Rightarrow> pipe_channel \<Rightarrow> event list" where
  "pipe_channel_dtor self p =
     [SysClose (exrd p), SysClose (fdrw (base p)), SysClose (fdrd (base p)), SysClose (exrw p)]
     @ file_channel_dtor self"

fun delete_obj :: "nat \<Rightarrow> channel_obj \<Rightarrow> event list" where
  "delete_obj self (File_channel c) = file_channel_dtor self"
| "delete_obj self (Pipe_channel p) = pipe_channel_dtor self p"

text \<open>The loop of \<^verbatim>\<open>backend::cleanup\<close>: \<open>kept\<close> are the entries of \<^verbatim>\<open>delete_list\<close> before
  the iterator, the second argument those from the iterator on. A busy child is stepped
  over; any other is closed, deleted and erased at the iterator. An entry whose object is
  gone is stepped over.\<close>

fun cleanup_from :: "nat list \<Rightarrow> nat list \<Rightarrow> backend \<Rightarrow> backend" where
  "cleanup_from kept [] b = b"
| "cleanup_from kept (child # rest) b =
     (case channels b child of
        None \<Rightarrow> cleanup_from (kept @ [child]) rest b
      | Some obj \<Rightarrow>
          (if busy (base_of obj) then cleanup_from (kept @ [child]) rest b
           else (let b1 = b\<lparr>poll_list :=
                            filter (\<lambda>p. fd p \<noteq> fdrw (base_of obj))
                              (filter (\<lambda>p. fd p \<noteq> fdrd (base_of obj)) (poll_list b))\<rparr>;
                     (ok, ch', b2) = close child (base_of obj, b1);
                     b3 = b2\<lparr>trace := trace b2 @ delete_obj child (with_base obj ch'),
                             channels := (channels b2)(child := None),
                             delete_list := kept @ rest\<rparr>
                 in cleanup_from kept rest b3)))"

definition cleanup :: "backend \<Rightarrow> bool \<times> backend" where
  "cleanup b = (let b' = cleanup_from [] (delete_list b) b in (child_list b' = [], b'))"

text \<open>\<^verbatim>\<open>context::loop\<close>: the body runs inside \<^verbatim>\<open>safe\<close>, so a thrown error ends it with the
  negated code. \<open>None\<close> when \<^verbatim>\<open>handle_pending_events\<close> does not return.\<close>

definition loop :: "sys \<Rightarrow> int \<Rightarrow> backend \<Rightarrow> (int \<times> backend) option" where
  "loop w timeout b =
     (case handle_events w timeout b of
        (Inl e, b1) \<Rightarrow> Some (safe (Inl e), b1)
      | (Inr result, b1) \<Rightarrow>
          (case (if pending b1 then handle_pending_events w b1 else Some b1) of
             None \<Rightarrow> None
           | Some b2 \<Rightarrow>
               (let b3 = (if delete_list b2 \<noteq> []
                          then snd (cleanup (snd (usb_handle_events w timeout b2)))
                          else b2)
                in Some (safe (Inr (if result = 0 \<and> child_list b3 = []
                                     then - error_int no_channels else result)), b3))))"

section \<open>Pipe channel (core.cpp)\<close>

text \<open>\<^verbatim>\<open>struct channel\<close> of usbuart.h.\<close>

record channel =
  fd_read :: int
  fd_write :: int

text \<open>The constructor of \<^verbatim>\<open>pipe_channel::bipipe\<close>. \<open>pa\<close> and \<open>pb\<close> are what the two
  \<^verbatim>\<open>pipe(2)\<close> calls answer: the result and the descriptor pair \<^verbatim>\<open>a[0], a[1]\<close> (read end,
  write end). It returns the channel the engine uses, the caller's channel \<^verbatim>\<open>ex\<close> as
  assigned, and the descriptors closed on the way.\<close>

definition bipipe ::
  "int \<times> int \<times> int \<Rightarrow> int \<times> int \<times> int \<Rightarrow> (error_t + channel \<times> channel) \<times> event list" where
  "bipipe pa pb =
     (let (ra, a0, a1) = pa; (rb, b0, b1) = pb
      in if ra \<noteq> 0 then (Inl pipe_error, [])
         else if rb \<noteq> 0 then (Inl pipe_error, [SysClose a0, SysClose a1])
         else (Inr (\<lparr>fd_read = a0, fd_write = b1\<rparr>, \<lparr>fd_read = b0, fd_write = b1\<rparr>), []))"

text \<open>The constructor of \<^verbatim>\<open>pipe_channel\<close>: \<^verbatim>\<open>bipipe(ch)\<close> initializes the base with the
  engine's channel, then \<^verbatim>\<open>exrd\<close> and \<^verbatim>\<open>exrw\<close> are taken from the caller's channel.
  \<open>mk\<close> builds the \<^verbatim>\<open>file_channel\<close> base for a descriptor pair.\<close>

definition pipe_channel_ctor ::
  "(int \<times> int \<Rightarrow> file_channel) \<Rightarrow> int \<times> int \<times> int \<Rightarrow> int \<times> int \<times> int \<Rightarrow>
   (error_t + pipe_channel \<times> channel) \<times> event list" where
  "pipe_channel_ctor mk pa pb =
     (case bipipe pa pb of
        (Inl e, closed) \<Rightarrow> (Inl e, closed)
      | (Inr (own, ex), closed) \<Rightarrow>
          (Inr (\<lparr>base = mk (fd_read own, fd_write own), exrd = fd_read ex, exrw = fd_write ex\<rparr>,
                ex), closed))"

section \<open>Reference formulas for the FTDI divisor\<close>

text \<open>The clock in Hz as a natural number.\<close>

definition clk_of :: "bool \<Rightarrow> nat" where
  "clk_of ish = (if ish then 120000000 else 48000000)"

text \<open>The divisor the code computes, over the naturals (no wrap-around): the quotient
  \<open>clk * 8 / baud\<close> is rounded by adding \<open>prescaler / 2 - 1\<close> before the division by the
  prescaler.\<close>

definition round_divisor :: "bool \<Rightarrow> u32 \<Rightarrow> nat" where
  "round_divisor ish baudrate =
     (let p = unat (prescaler ish baudrate)
      in (clk_of ish * 8 div unat baudrate + p div 2 - 1) div p)"

text \<open>The divisor as the specification words it: \<open>(clk * 8 / baud) / prescaler\<close>.\<close>

definition spec_divisor :: "bool \<Rightarrow> u32 \<Rightarrow> nat" where
  "spec_divisor ish baudrate =
     (clk_of ish * 8 div unat baudrate) div unat (prescaler ish baudrate)"

text \<open>The specification's value and index words for a divisor \<open>d\<close>:
  \<open>value = ((d >> 3) & 0x3FFF) | (table[d & 7] & 0xC000)\<close> and
  \<open>index = (table[d & 7] & 0x0100) | (0x0200 if prescaler is 10)\<close>.\<close>

definition divisor_words :: "nat \<Rightarrow> bool \<Rightarrow> u16 \<times> u16" where
  "divisor_words d p10 =
     (let m = mapper ! (d mod 8)
      in (word_of_nat (d div 8 mod 2 ^ 14) OR (m AND 0xC000),
          (m AND 0x0100) OR (if p10 then 0x0200 else 0)))"

section \<open>Observations and reference formulas for the channel\<close>

text \<open>The bytes a trace delivered to descriptor \<open>f\<close>: of each \<^verbatim>\<open>write(2)\<close> on \<open>f\<close> with a
  positive result, the accepted prefix of the data.\<close>

fun written_to :: "int \<Rightarrow> event list \<Rightarrow> u8 list" where
  "written_to f [] = []"
| "written_to f (SysWrite g data res # es) =
     (if g = f \<and> 0 < res then take (nat res) data else []) @ written_to f es"
| "written_to f (e # es) = written_to f es"

text \<open>What libusb does to an IN transfer before it calls the completion callback: it
  stores the status, the number of bytes received and the bytes themselves.\<close>

definition libusb_complete ::
  "bool \<Rightarrow> libusb_transfer_status \<Rightarrow> int \<Rightarrow> u8 list \<Rightarrow> chst \<Rightarrow> chst" where
  "libusb_complete i s n bytes st =
     ((fst st)\<lparr>readxfer := (readxfer (fst st))
        (i := (readxfer (fst st) i)\<lparr>xstatus := s, actual_length := n,
               buffer := bytes @ drop (length bytes) (buffer (readxfer (fst st) i))\<rparr>)\<rparr>,
      snd st)"

text \<open>The invariant of the specification for IN transfer \<open>i\<close>:
  \<open>0 \<le> readpos[i] \<le> actual_length[i] \<le> chunk_size\<close>.\<close>

definition readpos_inv :: "int \<Rightarrow> file_channel \<Rightarrow> bool \<Rightarrow> bool" where
  "readpos_inv chunk ch i =
     (0 \<le> uint (readpos ch i) \<and> uint (readpos ch i) \<le> actual_length (readxfer ch i)
      \<and> actual_length (readxfer ch i) \<le> chunk)"

text \<open>The line-error bits a driver has accumulated from read completions.\<close>

definition line_errors :: "driver \<Rightarrow> int" where
  "line_errors d = (case d of Ftdi f \<Rightarrow> uint (errors f) | _ \<Rightarrow> 0)"

text \<open>The status word as the specification words it: the three ok bits OR-ed with the
  driver-reported line-error bits.\<close>

definition spec_status :: "file_channel \<Rightarrow> int" where
  "spec_status ch =
     (if pipein_hangup ch then 0 else read_pipe_ok) OR
     (if pipeout_hangup ch then 0 else write_pipe_ok) OR
     (if device_hangup ch then 0 else usb_dev_ok) OR
     line_errors (drv ch)"

section \<open>A concrete FTDI channel for the closed theorems\<close>

text \<open>A 64-byte buffer starting with the given bytes.\<close>

definition buf64 :: "u8 list \<Rightarrow> u8 list" where
  "buf64 bytes = bytes @ replicate (64 - length bytes) 0"

text \<open>The channel as \<open>file_channel_init\<close> leaves it for a low-speed FTDI driver on
  descriptors 3 and 4 when both IN transfers were submitted and the inbound descriptor
  had nothing to read.\<close>

definition ftdi_channel :: file_channel where
  "ftdi_channel =
     \<lparr>readxfer = (\<lambda>i. \<lparr>xstatus = LIBUSB_TRANSFER_COMPLETED, xlength = 64, actual_length = 0,
                         buffer = buf64 []\<rparr>),
      current = False,
      writexfer = \<lparr>xstatus = LIBUSB_TRANSFER_COMPLETED, xlength = 0, actual_length = 0,
                   buffer = buf64 []\<rparr>,
      readpos = (\<lambda>i. 0),
      readxfer_busy = (\<lambda>i. True),
      writexfer_busy = False,
      fdrd = 3, fdrw = 4,
      drv = Ftdi \<lparr>ifc = l_ifc_ref, ifcnum = 0, isH = False, errors = 0\<rparr>,
      pipein_ready = False, pipeout_ready = False,
      pipein_hangup = False, pipeout_hangup = False, device_hangup = False\<rparr>"

text \<open>The same channel after IN transfer 0 completed with ten bytes (two status bytes,
  then \<open>Hello\<close> and three more) and the driver set the position to 2; transfer 1 is
  still in flight.\<close>

definition hello_channel :: file_channel where
  "hello_channel =
     ftdi_channel\<lparr>readxfer := (readxfer ftdi_channel)
        (False := \<lparr>xstatus = LIBUSB_TRANSFER_COMPLETED, xlength = 64, actual_length = 10,
                    buffer = buf64 [0x01, 0x60, 72, 101, 108, 108, 111, 1, 2, 3]\<rparr>),
      readpos := (readpos ftdi_channel)(False := 2),
      readxfer_busy := (readxfer_busy ftdi_channel)(False := False)\<rparr>"

definition one_child :: backend where
  "one_child =
     \<lparr>poll_list = [\<lparr>fd = 3, events = POLLIN OR POLLHUP, revents = 0\<rparr>],
      child_list = [0], delete_list = [], pending = False,
      channels = [0 \<mapsto> File_channel ftdi_channel], trace = []\<rparr>"

text \<open>An outside world in which \<^verbatim>\<open>write(2)\<close> accepts at most \<open>k\<close> bytes, \<^verbatim>\<open>read(2)\<close> has
  nothing (\<^verbatim>\<open>EAGAIN\<close>), every submission succeeds and \<^verbatim>\<open>poll(2)\<close> answers \<open>polled\<close> with
  \<^verbatim>\<open>errno\<close> \<open>err\<close>.\<close>

definition world :: "int \<Rightarrow> int \<Rightarrow> int \<Rightarrow> sys" where
  "world k polled err =
     \<lparr>sys_write = (\<lambda>f data. (min k (int (length data)), 0)),
      sys_read = (\<lambda>f n. (-1, EAGAIN, [])),
      usb_submit = (\<lambda>c x. 0),
      sys_poll = (\<lambda>l t. (polled, err, l)),
      usb_pollfds = [],
      usb_handle_events = (\<lambda>t b. (0, b))\<rparr>"

text \<open>A run of the FTDI channel: IN transfer 0 completes with ten bytes (two status
  bytes, eight payload bytes) and the pipe takes all eight; then IN transfer 1 does the
  same. Both transfers are in flight again and \<open>current\<close> is transfer 0.\<close>

definition ten_bytes :: "u8 list" where
  "ten_bytes = [0x01, 0x60, 72, 101, 108, 108, 111, 1, 2, 3]"

definition drained_once :: chst where
  "drained_once =
     read_cb (world 64 0 0) 0 False
       (libusb_complete False LIBUSB_TRANSFER_COMPLETED 10 ten_bytes (ftdi_channel, one_child))"

definition drained_twice :: chst where
  "drained_twice =
     read_cb (world 64 0 0) 0 True
       (libusb_complete True LIBUSB_TRANSFER_COMPLETED 10 ten_bytes drained_once)"

text \<open>The next completion of transfer 0 after that run: the five-second timeout of the
  transfer expires with nothing received, or one byte arrives.\<close>

definition then_timed_out :: chst where
  "then_timed_out =
     read_cb (world 64 0 0) 0 False
       (libusb_complete False LIBUSB_TRANSFER_TIMED_OUT 0 [] drained_twice)"

definition then_one_byte :: chst where
  "then_one_byte =
     read_cb (world 64 0 0) 0 False
       (libusb_complete False LIBUSB_TRANSFER_COMPLETED 1 [0x01] drained_twice)"

section \<open>Auxiliary notions for the channel proofs\<close>

text \<open>Two channel states agree on the inbound side: transfers, positions, busy flags,
  \<open>current\<close>, driver and descriptors.\<close>

definition same_read_side :: "file_channel \<Rightarrow> file_channel \<Rightarrow> bool" where
  "same_read_side ch ch' =
     (readxfer ch' = readxfer ch \<and> readpos ch' = readpos ch
      \<and> readxfer_busy ch' = readxfer_busy ch \<and> current ch' = current ch
      \<and> drv ch' = drv ch \<and> fdrd ch' = fdrd ch \<and> fdrw ch' = fdrw ch)"

text \<open>A stretch of trace that holds nothing but transfer cancellations.\<close>

fun only_cancels :: "event list \<Rightarrow> bool" where
  "only_cancels [] = True"
| "only_cancels (UsbCancel c x # es) = only_cancels es"
| "only_cancels (e # es) = False"

section \<open>FTDI baud-rate divisors\<close>

lemma low_limit_val: "low_limit = 732"
  by (simp add: low_limit_def high_clk_def)

lemma prescaler_cases: "prescaler ish baudrate = 10 \<or> prescaler ish baudrate = 16"
  by (simp add: prescaler_def)

lemma prescaler_10_iff:
  "(prescaler ish baudrate = 10) = (ish \<and> 120000000 div 10 div 2 ^ 14 < unat baudrate)"
proof -
  have "(baudrate > 732) = (732 < unat baudrate)"
    by (simp add: word_less_nat_alt)
  then show ?thesis
    by (simp add: prescaler_def low_limit_val)
qed

lemma unat_divisor:
  assumes "baudrate \<noteq> 0"
  shows "unat (divisor ish baudrate) = round_divisor ish baudrate"
proof -
  let ?clk = "if ish then high_clk else low_clk"
  have c: "unat (push_bit 3 ?clk) = clk_of ish * 8"
    by (simp add: high_clk_def low_clk_def clk_of_def)
  have q: "unat (push_bit 3 ?clk div baudrate) = clk_of ish * 8 div unat baudrate"
    by (simp add: unat_div c)
  have b: "clk_of ish * 8 div unat baudrate \<le> 960000000"
  proof -
    have "clk_of ish * 8 div unat baudrate \<le> clk_of ish * 8"
      by (rule div_le_dividend)
    also have "\<dots> \<le> 960000000"
      by (simp add: clk_of_def)
    finally show ?thesis .
  qed
  show ?thesis
  proof (cases "prescaler ish baudrate = 10")
    case True
    have "unat (push_bit 3 ?clk div baudrate + 5 - 1) = clk_of ish * 8 div unat baudrate + 4"
      using b q by (simp add: unat_word_ariths)
    then show ?thesis
      using True by (simp add: divisor_def round_divisor_def Let_def unat_div)
  next
    case False
    then have p: "prescaler ish baudrate = 16"
      using prescaler_cases by blast
    have "unat (push_bit 3 ?clk div baudrate + 8 - 1) = clk_of ish * 8 div unat baudrate + 7"
      using b q by (simp add: unat_word_ariths)
    then show ?thesis
      using p by (simp add: divisor_def round_divisor_def Let_def unat_div)
  qed
qed

lemma unat_and_7: "unat ((d::u32) AND 7) = unat d mod 8"
proof -
  have "(7::u32) = mask 3"
    by (simp add: mask_eq_exp_minus_1)
  then have "d AND 7 = take_bit 3 d"
    by (simp add: take_bit_eq_mask)
  then show ?thesis
    by (simp add: take_bit_eq_mod unat_mod)
qed

lemma ucast_shift_mask:
  "(ucast (drop_bit 3 (d::u32) AND 0x3FFF) :: u16) = word_of_nat (unat d div 8 mod 2 ^ 14)"
proof -
  have "(0x3FFF::u32) = mask 14"
    by (simp add: mask_eq_exp_minus_1)
  then have e: "drop_bit 3 d AND 0x3FFF = take_bit 14 (drop_bit 3 d)"
    by (simp add: take_bit_eq_mask)
  have h: "unat (take_bit 14 (drop_bit 3 d)) = unat d div 8 mod 2 ^ 14"
    by (simp add: take_bit_eq_mod drop_bit_eq_div unat_mod unat_div)
  have "(ucast (take_bit 14 (drop_bit 3 d)) :: u16) =
      word_of_nat (unat (take_bit 14 (drop_bit 3 d)))"
    by simp
  then show ?thesis
    unfolding e h .
qed

lemma compute_divisors_words:
  assumes "baudrate \<noteq> 0"
  shows "compute_divisors ish baudrate =
    Some (divisor_words (round_divisor ish baudrate) (prescaler ish baudrate = 10))"
  using assms
  by (simp add: compute_divisors_def divisor_words_def Let_def unat_and_7
      ucast_shift_mask unat_divisor del: of_nat_mod of_nat_div)

text \<open>C5 (as the code has it). For every nonzero 32-bit baud rate the prescaler is 10
  exactly when the part is high-speed and the rate exceeds \<open>(high_clk / 10) / 2^14\<close>, and
  16 otherwise (so baud 1 selects 16); the divisor is
  \<open>((clk * 8) / baud + prescaler / 2 - 1) / prescaler\<close>, computed without wrap-around;
  value and index are the specification's words of that divisor; and the control write
  carries the index with the interface number OR-ed in.\<close>

theorem ftdi_divisors_rounded:
  assumes "baudrate \<noteq> 0"
  shows "(prescaler ish baudrate = 10) = (ish \<and> 120000000 div 10 div 2 ^ 14 < unat baudrate)
    \<and> (prescaler ish baudrate = 10 \<or> prescaler ish baudrate = 16)
    \<and> prescaler ish 1 = 16
    \<and> compute_divisors ish baudrate =
        Some (divisor_words (round_divisor ish baudrate) (prescaler ish baudrate = 10))
    \<and> ftdi_setbaudrate usb ish num baudrate =
        Some (write_cv usb set_baudrate_req
          (fst (divisor_words (round_divisor ish baudrate) (prescaler ish baudrate = 10)))
          (snd (divisor_words (round_divisor ish baudrate) (prescaler ish baudrate = 10))
             OR ucast num))"
proof -
  have one: "prescaler ish 1 = 16"
    by (simp add: prescaler_def low_limit_val)
  have cd: "compute_divisors ish baudrate =
      Some (divisor_words (round_divisor ish baudrate) (prescaler ish baudrate = 10))"
    using assms by (rule compute_divisors_words)
  have sb: "ftdi_setbaudrate usb ish num baudrate =
      Some (write_cv usb set_baudrate_req
        (fst (divisor_words (round_divisor ish baudrate) (prescaler ish baudrate = 10)))
        (snd (divisor_words (round_divisor ish baudrate) (prescaler ish baudrate = 10))
           OR ucast num))"
    by (simp add: ftdi_setbaudrate_def cd split: prod.splits)
  show ?thesis
    using prescaler_10_iff prescaler_cases one cd sb by blast
qed

theorem ftdi_divisors_rounded_witness:
  "(57600::u32) \<noteq> 0 \<and> compute_divisors False 57600 = Some (0xC034, 0)"
  using ftdi_divisors_rounded [of 57600 False]
  by (simp add: divisor_words_def round_divisor_def prescaler_def low_limit_val
      clk_of_def mapper_def)

text \<open>C5 as worded, with the divisor \<open>(clk * 8 / baud) / prescaler\<close>, fails on a
  low-speed part at 57600 baud: the unrounded divisor is 416, the code's is 417.\<close>

theorem ftdi_divisors_unrounded_counterexample:
  "compute_divisors False 57600 \<noteq>
     Some (divisor_words (spec_divisor False 57600) (prescaler False 57600 = 10))"
  using compute_divisors_words [of 57600 False]
  by (simp add: divisor_words_def round_divisor_def spec_divisor_def prescaler_def
      low_limit_val clk_of_def mapper_def)

section \<open>CH34x baud-rate table\<close>

lemma ch34x_scan_unlisted:
  "baudrate \<notin> baud ` set table \<Longrightarrow> ch34x_scan usb table baudrate log = (Inl bad_baudrate, log)"
  by (induction table) auto

lemma ch34x_scan_listed:
  "baudrate \<in> baud ` set table \<Longrightarrow>
   \<exists>e \<in> set table. baud e = baudrate \<and>
     ch34x_scan usb table baudrate =
       andthen (write_cv usb 0x9a 0x1312 (div1 e)) (write_cv usb 0x9a 0x0f2c (div2 e))"
  by (induction table) auto

lemma ch34x_table_bauds:
  "baud ` set ch34x_table = {2400, 4800, 9600, 19200, 38400, 57600, 115200}"
  by (simp add: ch34x_table_def)

lemma paired_writes:
  "andthen (write_cv usb 0x9a 0x1312 d1) (write_cv usb 0x9a 0x0f2c d2) log =
     (let w1 = \<lparr>bmRequestType = vendor_reqo, bRequest = 0x9a, wValue = 0x1312, wIndex = d1\<rparr>;
          w2 = \<lparr>bmRequestType = vendor_reqo, bRequest = 0x9a, wValue = 0x0f2c, wIndex = d2\<rparr>
      in if usb w1 < 0 then (Inl control_error, log @ [w1])
         else if usb w2 < 0 then (Inl control_error, log @ [w1, w2])
         else (Inr (), log @ [w1, w2]))"
  by (simp add: andthen_def write_cv_def Let_def)

text \<open>C8. For every baud rate: when the rate is one of 2400, 4800, 9600, 19200, 38400,
  57600, 115200, \<open>setbaudrate\<close> issues the request-0x9a writes with the two divisor words
  of that rate's table entry (the second after the first went through) and does not raise
  \<open>bad_baudrate\<close>; for every other rate it raises \<open>bad_baudrate\<close> with no control write,
  \<open>setup\<close> raises it too, and the facade turns it into \<open>-bad_baudrate\<close>.\<close>

theorem ch34x_setbaudrate_table:
  "(baudrate \<in> {2400, 4800, 9600, 19200, 38400, 57600, 115200} \<longrightarrow>
      (\<exists>e \<in> set ch34x_table. baud e = baudrate \<and>
         (let w1 = \<lparr>bmRequestType = vendor_reqo, bRequest = 0x9a, wValue = 0x1312,
                    wIndex = div1 e\<rparr>;
              w2 = \<lparr>bmRequestType = vendor_reqo, bRequest = 0x9a, wValue = 0x0f2c,
                    wIndex = div2 e\<rparr>
          in ch34x_setbaudrate usb baudrate log =
               (if usb w1 < 0 then (Inl control_error, log @ [w1])
                else if usb w2 < 0 then (Inl control_error, log @ [w1, w2])
                else (Inr (), log @ [w1, w2])))))
   \<and> (baudrate \<notin> {2400, 4800, 9600, 19200, 38400, 57600, 115200} \<longrightarrow>
        ch34x_setbaudrate usb baudrate log = (Inl bad_baudrate, log)
      \<and> ch34x_setup usb baudrate fc log = (Inl bad_baudrate, log)
      \<and> safe (case fst (ch34x_setup usb baudrate fc log) of
                 Inl e \<Rightarrow> Inl e | Inr _ \<Rightarrow> Inr 0) = - error_int bad_baudrate)"
proof (intro conjI impI)
  assume "baudrate \<in> {2400, 4800, 9600, 19200, 38400, 57600, 115200}"
  then have "baudrate \<in> baud ` set ch34x_table"
    unfolding ch34x_table_bauds .
  from ch34x_scan_listed [OF this, of usb]
  obtain e where e: "e \<in> set ch34x_table" "baud e = baudrate"
    "ch34x_scan usb ch34x_table baudrate =
       andthen (write_cv usb 0x9a 0x1312 (div1 e)) (write_cv usb 0x9a 0x0f2c (div2 e))"
    by blast
  show "\<exists>e \<in> set ch34x_table. baud e = baudrate \<and>
         (let w1 = \<lparr>bmRequestType = vendor_reqo, bRequest = 0x9a, wValue = 0x1312,
                    wIndex = div1 e\<rparr>;
              w2 = \<lparr>bmRequestType = vendor_reqo, bRequest = 0x9a, wValue = 0x0f2c,
                    wIndex = div2 e\<rparr>
          in ch34x_setbaudrate usb baudrate log =
               (if usb w1 < 0 then (Inl control_error, log @ [w1])
                else if usb w2 < 0 then (Inl control_error, log @ [w1, w2])
                else (Inr (), log @ [w1, w2])))"
  proof (rule bexI [OF _ e(1)], intro conjI)
    show "baud e = baudrate" by (rule e(2))
    show "let w1 = \<lparr>bmRequestType = vendor_reqo, bRequest = 0x9a, wValue = 0x1312,
                    wIndex = div1 e\<rparr>;
              w2 = \<lparr>bmRequestType = vendor_reqo, bRequest = 0x9a, wValue = 0x0f2c,
                    wIndex = div2 e\<rparr>
          in ch34x_setbaudrate usb baudrate log =
               (if usb w1 < 0 then (Inl control_error, log @ [w1])
                else if usb w2 < 0 then (Inl control_error, log @ [w1, w2])
                else (Inr (), log @ [w1, w2]))"
      unfolding ch34x_setbaudrate_def e(3) paired_writes by (simp add: Let_def)
  qed
next
  assume "baudrate \<notin> {2400, 4800, 9600, 19200, 38400, 57600, 115200}"
  then have "baudrate \<notin> baud ` set ch34x_table"
    unfolding ch34x_table_bauds .
  then have sb: "ch34x_setbaudrate usb baudrate log = (Inl bad_baudrate, log)"
    unfolding ch34x_setbaudrate_def by (rule ch34x_scan_unlisted)
  then have su: "ch34x_setup usb baudrate fc log = (Inl bad_baudrate, log)"
    by (simp add: ch34x_setup_def andthen_def)
  show "ch34x_setbaudrate usb baudrate log = (Inl bad_baudrate, log)"
    by (rule sb)
  show "ch34x_setup usb baudrate fc log = (Inl bad_baudrate, log)"
    by (rule su)
  show "safe (case fst (ch34x_setup usb baudrate fc log) of
                 Inl e \<Rightarrow> Inl e | Inr _ \<Rightarrow> Inr 0) = - error_int bad_baudrate"
    by (simp add: su safe_def)
qed

theorem ch34x_setbaudrate_table_witness:
  "ch34x_setbaudrate (\<lambda>c. 0) 9600 [] =
     (Inr (), [\<lparr>bmRequestType = 0x40, bRequest = 0x9a, wValue = 0x1312, wIndex = 0xb202\<rparr>,
               \<lparr>bmRequestType = 0x40, bRequest = 0x9a, wValue = 0x0f2c, wIndex = 0x0013\<rparr>])
   \<and> ch34x_setbaudrate (\<lambda>c. 0) 1200 [] = (Inl bad_baudrate, [])
   \<and> safe (case fst (ch34x_setup (\<lambda>c. 0) 1200 none_fc []) of
             Inl e \<Rightarrow> Inl e | Inr _ \<Rightarrow> Inr 0) = -13"
  using ch34x_setbaudrate_table [of 9600 "\<lambda>c. 0" "[]" none_fc]
    ch34x_setbaudrate_table [of 1200 "\<lambda>c. 0" "[]" none_fc]
  by (auto simp: ch34x_table_def vendor_reqo_def Let_def)

section \<open>FTDI factory\<close>

lemma ftdi_ctor_fields:
  "ftdi_ctor claim garbage n b = Inr d \<Longrightarrow> ifcnum d = n \<and> isH d = b"
  by (auto simp: ftdi_ctor_def split: sum.splits)

text \<open>What \<open>create\<close> builds for every accepted device: the high-speed flag is
  "interface index is nonzero" and the interface number is the detection result.\<close>

lemma ftdi_create_fields:
  assumes "ftdi_create claim garbage desc num = Inr (Some d)"
  shows "isH d = (num \<noteq> 0) \<and> ifcnum d = (if ftdi_detect desc then 1 else 0)"
  using assms
  by (auto simp: ftdi_create_def Let_def split: if_splits sum.splits
      dest: ftdi_ctor_fields)

text \<open>C9 at a failing input. An FT2232H (0403:6010, bcdDevice 0x0700) is detected as
  high-speed; requested on interface 0 with the claim succeeding, the instance \<open>create\<close>
  returns has \<open>isH = False\<close>, interface number 1 and the low-speed endpoint table.\<close>

theorem ftdi_create_swaps_flag_and_interface:
  "ftdi_detect \<lparr>idVendor = 0x0403, idProduct = 0x6010, bcdDevice = 0x0700\<rparr>
   \<and> ftdi_create (\<lambda>n. (0, 0)) 0
        \<lparr>idVendor = 0x0403, idProduct = 0x6010, bcdDevice = 0x0700\<rparr> 0 =
      Inr (Some \<lparr>ifc = l_ifc_ref, ifcnum = 1, isH = False, errors = 0\<rparr>)"
  by (simp add: ftdi_create_def ftdi_detect_def ftdi_table_def high_speed_def
      ftdi_ctor_def claim_interface_def h_ifcs_def)

lemma registry_create_declined:
  "\<forall>f \<in> set pre. f dev ident = Inr None \<Longrightarrow>
   registry_create (pre @ list) dev ident = registry_create list dev ident"
  by (induction pre) auto

text \<open>C10. The FTDI factory raises \<open>invalid_param\<close> whenever the interface index is 4 or
  more (for any descriptor, the check precedes the vendor test) and whenever an FTDI-vendor
  device not detected as high-speed is requested with a nonzero index; when the factories
  registered before it decline the device, attach then returns \<open>-invalid_param\<close>, which is
  neither \<open>-no_interface\<close> nor \<open>-not_supported\<close>.\<close>

theorem ftdi_create_invalid_param:
  "(4 \<le> unat num \<longrightarrow> ftdi_create claim garbage desc num = Inl invalid_param)
   \<and> (idVendor desc = 0x0403 \<and> num \<noteq> 0 \<and> \<not> ftdi_detect desc \<longrightarrow>
        ftdi_create claim garbage desc num = Inl invalid_param)
   \<and> ((4 \<le> unat num \<or> (idVendor desc = 0x0403 \<and> num \<noteq> 0 \<and> \<not> ftdi_detect desc))
        \<and> (\<forall>f \<in> set pre. f desc num = Inr None) \<longrightarrow>
        map_option safe (backend_attach (pre @ ftdi_create claim garbage # post) (0, err)
                rest (Some desc) num) = Some (- error_int invalid_param)
      \<and> - error_int invalid_param \<noteq> - error_int no_interface
      \<and> - error_int invalid_param \<noteq> - error_int not_supported)"
proof -
  have a: "ftdi_create claim garbage desc num = Inl invalid_param" if "4 \<le> unat num"
    using that by (simp add: ftdi_create_def h_ifcs_def)
  have b: "ftdi_create claim garbage desc num = Inl invalid_param"
    if "idVendor desc = 0x0403 \<and> num \<noteq> 0 \<and> \<not> ftdi_detect desc"
    using that by (simp add: ftdi_create_def)
  have c: "map_option safe (backend_attach (pre @ ftdi_create claim garbage # post) (0, err)
                rest (Some desc) num) = Some (- error_int invalid_param)"
    if r: "ftdi_create claim garbage desc num = Inl invalid_param"
      and d: "\<forall>f \<in> set pre. f desc num = Inr None"
  proof -
    have "registry_create (pre @ ftdi_create claim garbage # post) desc num =
        Inl invalid_param"
      using registry_create_declined [OF d] r by simp
    then show ?thesis
      by (simp add: backend_attach_def backend_create_def safe_def)
  qed
  show ?thesis
    using a b c by auto
qed

theorem ftdi_create_invalid_param_witness:
  "ftdi_create (\<lambda>n. (0, 0)) 0 \<lparr>idVendor = 0x1a86, idProduct = 0x7523, bcdDevice = 0\<rparr> 4 =
     Inl invalid_param
   \<and> ftdi_create (\<lambda>n. (0, 0)) 0 \<lparr>idVendor = 0x0403, idProduct = 0x6001, bcdDevice = 0x0600\<rparr> 1 =
     Inl invalid_param
   \<and> map_option safe (backend_attach [\<lambda>d n. Inr None, ftdi_create (\<lambda>n. (0, 0)) 0] (0, 0)
        (\<lambda>d. Inr 0) (Some \<lparr>idVendor = 0x0403, idProduct = 0x6001, bcdDevice = 0x0600\<rparr>) 1)
      = Some (-3)"
  using ftdi_create_invalid_param [of 4 "\<lambda>n. (0, 0)" 0
      "\<lparr>idVendor = 0x1a86, idProduct = 0x7523, bcdDevice = 0\<rparr>" "[]" "[]" 0 "\<lambda>d. Inr 0"]
    ftdi_create_invalid_param [of 1 "\<lambda>n. (0, 0)" 0
      "\<lparr>idVendor = 0x0403, idProduct = 0x6001, bcdDevice = 0x0600\<rparr>"
      "[\<lambda>d n. Inr None]" "[]" 0 "\<lambda>d. Inr 0"]
  by (simp add: ftdi_detect_def ftdi_table_def high_speed_def)

section \<open>Channel status\<close>

lemma status_value:
  "status ch = (if pipein_hangup ch then 0 else 1) + (if pipeout_hangup ch then 0 else 2)
     + (if device_hangup ch then 0 else 4)"
  by (simp add: status_def read_pipe_ok_def write_pipe_ok_def usb_dev_ok_def)

text \<open>C4 (as the code has it). \<open>status\<close> is exactly the OR of \<open>read_pipe_ok\<close> (1) when
  \<open>pipein_hangup\<close> is false, \<open>write_pipe_ok\<close> (2) when \<open>pipeout_hangup\<close> is false and
  \<open>usb_dev_ok\<close> (4) when \<open>device_hangup\<close> is false: no other bit is ever set, the driver
  (and so its accumulated line-error bits) has no influence, and the facade returns this
  word for the channel it finds.\<close>

theorem status_three_bits:
  "status ch = (if pipein_hangup ch then 0 else 1) + (if pipeout_hangup ch then 0 else 2)
     + (if device_hangup ch then 0 else 4)
   \<and> bit (status ch) 0 = (\<not> pipein_hangup ch)
   \<and> bit (status ch) 1 = (\<not> pipeout_hangup ch)
   \<and> bit (status ch) 2 = (\<not> device_hangup ch)
   \<and> status ch AND NOT 7 = 0
   \<and> status (ch\<lparr>drv := d\<rparr>) = status ch
   \<and> (backend_find b (child_list b) chn = Some c \<and> channels b c = Some obj \<longrightarrow>
        context_status b chn = status (base_of obj))"
proof -
  have bits: "bit (status ch) 0 = (\<not> pipein_hangup ch)
      \<and> bit (status ch) 1 = (\<not> pipeout_hangup ch)
      \<and> bit (status ch) 2 = (\<not> device_hangup ch)
      \<and> status ch AND NOT 7 = 0"
    by (cases "pipein_hangup ch"; cases "pipeout_hangup ch"; cases "device_hangup ch")
      (simp_all add: status_value)
  have drv: "status (ch\<lparr>drv := d\<rparr>) = status ch"
    by (simp add: status_def)
  have facade: "context_status b chn = status (base_of obj)"
    if "backend_find b (child_list b) chn = Some c \<and> channels b c = Some obj"
    using that by (simp add: context_status_def safe_def)
  show ?thesis
    using status_value bits drv facade by blast
qed

theorem status_three_bits_witness:
  "status ftdi_channel = 7
   \<and> status (ftdi_channel\<lparr>drv := Ftdi \<lparr>ifc = l_ifc_ref, ifcnum = 0, isH = False,
                                       errors = 0x1E\<rparr>\<rparr>) = 7
   \<and> context_status one_child (3, 4) = 7"
  using status_three_bits [of ftdi_channel
      "Ftdi \<lparr>ifc = l_ifc_ref, ifcnum = 0, isH = False, errors = 0x1E\<rparr>"
      one_child "(3, 4)" 0 "File_channel ftdi_channel"]
  by (simp add: ftdi_channel_def one_child_def)

text \<open>C4 as worded fails: after an FTDI read completion whose status byte carries the
  framing-error bit (8), the driver has recorded the bit, yet the status word is 7 and not
  the OR with the line-error bits, 15.\<close>

theorem status_line_errors_counterexample:
  "line_errors (drv (fst (read_cb (world 64 0 0) 0 False
      (libusb_complete False LIBUSB_TRANSFER_COMPLETED 4 [0x01, 0x08, 0x48, 0x69]
         (ftdi_channel, one_child))))) = 8
   \<and> status (fst (read_cb (world 64 0 0) 0 False
      (libusb_complete False LIBUSB_TRANSFER_COMPLETED 4 [0x01, 0x08, 0x48, 0x69]
         (ftdi_channel, one_child)))) = 7
   \<and> spec_status (fst (read_cb (world 64 0 0) 0 False
      (libusb_complete False LIBUSB_TRANSFER_COMPLETED 4 [0x01, 0x08, 0x48, 0x69]
         (ftdi_channel, one_child)))) = 15"
  by (simp add: read_cb_def read_callback_def libusb_complete_def ftdi_channel_def
      drv_read_callback_def ftdi_read_callback_def error_mask_def writepipe_def
      getreadbuff_def world_def buf64_def consumed_def submit_transfer_def
      status_def spec_status_def line_errors_def read_pipe_ok_def write_pipe_ok_def
      usb_dev_ok_def Let_def)

section \<open>Pipe channel descriptors\<close>

text \<open>C6 at a failing input. With pipe \<open>a\<close> = (3, 4) and pipe \<open>b\<close> = (5, 6) as (read end,
  write end), the engine uses \<open>a.read\<close> = 3 and \<open>b.write\<close> = 6, but the caller receives
  \<open>b.read\<close> = 5 and \<open>b.write\<close> = 6 (not \<open>a.write\<close> = 4); the destructor then closes 5, 6, 3
  and 6 again, and never closes 4.\<close>

theorem bipipe_hands_out_b_write:
  "pipe_channel_ctor (\<lambda>(r, wr). ftdi_channel\<lparr>fdrd := r, fdrw := wr\<rparr>) (0, 3, 4) (0, 5, 6) =
     (Inr (\<lparr>base = ftdi_channel\<lparr>fdrd := 3, fdrw := 6\<rparr>, exrd = 5, exrw = 6\<rparr>,
           \<lparr>fd_read = 5, fd_write = 6\<rparr>), [])
   \<and> take 4 (pipe_channel_dtor 0
        \<lparr>base = ftdi_channel\<lparr>fdrd := 3, fdrw := 6\<rparr>, exrd = 5, exrw = 6\<rparr>) =
     [SysClose 5, SysClose 6, SysClose 3, SysClose 6]
   \<and> SysClose 4 \<notin> set (pipe_channel_dtor 0
        \<lparr>base = ftdi_channel\<lparr>fdrd := 3, fdrw := 6\<rparr>, exrd = 5, exrw = 6\<rparr>)"
  by (simp add: pipe_channel_ctor_def bipipe_def pipe_channel_dtor_def
      file_channel_dtor_def)

section \<open>Errors of poll\<close>

text \<open>What \<open>loop\<close> returns when \<^verbatim>\<open>poll(2)\<close> fails on a nonempty poll list: the comparison
  \<^verbatim>\<open>polled == EINVAL\<close> is between a negative count and 22, so the error is classified from
  \<^verbatim>\<open>errno\<close> by \<open>throw_error\<close> alone.\<close>

lemma loop_poll_failed:
  assumes "poll_list b \<noteq> []" and "sys_poll w (poll_list b) timeout = (polled, err, pl)"
    and "polled < 0"
  shows "map_option fst (loop w timeout b) =
    (case throw_error err of
       Inl e \<Rightarrow> Some (- error_int e)
     | Inr _ \<Rightarrow> map_option (\<lambda>b'. polled)
         (if pending b then handle_pending_events w (b\<lparr>poll_list := pl\<rparr>)
          else Some (b\<lparr>poll_list := pl\<rparr>)))"
  using assms
  by (auto simp: loop_def handle_events_def poll_events_def EINVAL_def safe_def Let_def
      split: sum.splits option.splits)

text \<open>C7 at a failing input. One channel is waiting on descriptor 3; \<^verbatim>\<open>poll(2)\<close> answers
  -1 with \<^verbatim>\<open>errno\<close> \<^verbatim>\<open>EINVAL\<close>. \<open>loop\<close> returns -16, the code of \<open>io_error\<close>, not -18, the
  code of \<open>poll_error\<close>.\<close>

theorem loop_einval_is_io_error:
  "map_option fst (loop (world 64 (-1) EINVAL) 10 one_child) = Some (- error_int io_error)
   \<and> - error_int io_error \<noteq> - error_int poll_error"
proof -
  have "map_option fst (loop (world 64 (-1) EINVAL) 10 one_child) =
      (case throw_error EINVAL of
         Inl e \<Rightarrow> Some (- error_int e)
       | Inr _ \<Rightarrow> map_option (\<lambda>b'. -1)
           (if pending one_child
            then handle_pending_events (world 64 (-1) EINVAL)
                   (one_child\<lparr>poll_list := poll_list one_child\<rparr>)
            else Some (one_child\<lparr>poll_list := poll_list one_child\<rparr>)))"
    by (rule loop_poll_failed) (simp_all add: one_child_def world_def)
  then show ?thesis
    by (simp add: throw_error_def EINVAL_def EAGAIN_def EINTR_def EBUSY_def EACCES_def)
qed

text \<open>The benign errors: with \<^verbatim>\<open>errno\<close> \<^verbatim>\<open>EINTR\<close> nothing is thrown, and \<open>loop\<close> returns
  the negative count of \<^verbatim>\<open>poll(2)\<close> itself.\<close>

lemma loop_eintr_returns_count:
  "map_option fst (loop (world 64 (-1) EINTR) 10 one_child) = Some (-1)"
proof -
  have "map_option fst (loop (world 64 (-1) EINTR) 10 one_child) =
      (case throw_error EINTR of
         Inl e \<Rightarrow> Some (- error_int e)
       | Inr _ \<Rightarrow> map_option (\<lambda>b'. -1)
           (if pending one_child
            then handle_pending_events (world 64 (-1) EINTR)
                   (one_child\<lparr>poll_list := poll_list one_child\<rparr>)
            else Some (one_child\<lparr>poll_list := poll_list one_child\<rparr>)))"
    by (rule loop_poll_failed) (simp_all add: one_child_def world_def)
  then show ?thesis
    by (simp add: throw_error_def EINTR_def EAGAIN_def one_child_def)
qed

section \<open>Frame properties of the channel operations\<close>


lemma uint_u16_of_int: "0 \<le> n \<Longrightarrow> n \<le> 65535 \<Longrightarrow> uint (word_of_int n :: u16) = n"
  by (simp add: uint_word_of_int take_bit_eq_mod)

lemma unat_u16_of_int: "0 \<le> n \<Longrightarrow> n \<le> 65535 \<Longrightarrow> unat (word_of_int n :: u16) = nat n"
  using uint_u16_of_int [of n] by (simp add: unat_eq_nat_uint)

lemma uint_u16_add:
  "0 \<le> k \<Longrightarrow> uint (p :: u16) + k \<le> 65535 \<Longrightarrow> uint (p + word_of_int k) = uint p + k"
proof -
  assume k: "0 \<le> k" and s: "uint p + k \<le> 65535"
  have "0 \<le> uint p" by simp
  with k s have "k \<le> 65535" by linarith
  then have uk: "uint (word_of_int k :: u16) = k" using k by (rule uint_u16_of_int [rotated])
  have "uint (p + word_of_int k) = (uint p + uint (word_of_int k :: u16)) mod 2 ^ 16"
    by (simp add: uint_word_ariths)
  then show ?thesis using uk s k by simp
qed

lemma only_cancels_append: "only_cancels (xs @ ys) = (only_cancels xs \<and> only_cancels ys)"
  by (induction xs rule: only_cancels.induct) auto

lemma written_to_append: "written_to f (xs @ ys) = written_to f xs @ written_to f ys"
  by (induction xs rule: written_to.induct) auto

lemma only_cancels_written: "only_cancels es \<Longrightarrow> written_to f es = []"
  by (induction es rule: only_cancels.induct) auto

lemma close_frame:
  "same_read_side (fst st) (fst (snd (close self st)))
   \<and> (\<exists>cs. trace (snd (snd (close self st))) = trace (snd st) @ cs \<and> only_cancels cs)
   \<and> poll_list (snd (snd (close self st))) = poll_list (snd st)"
  by (simp add: close_def same_read_side_def Let_def)

lemma request_removal_frame:
  "same_read_side (fst st) (fst (request_removal self enforce st))
   \<and> (\<exists>cs. trace (snd (request_removal self enforce st)) = trace (snd st) @ cs
          \<and> only_cancels cs)
   \<and> poll_list (snd (request_removal self enforce st)) = poll_list (snd st)"
proof (cases "device_hangup (fst st) \<or> enforce \<or> (pipein_hangup (fst st) \<and> pipeout_hangup (fst st))")
  case False
  then show ?thesis
    by (auto simp: request_removal_def same_read_side_def Let_def)
next
  case True
  let ?ch = "(fst st)\<lparr>device_hangup := device_hangup (fst st) \<or> enforce\<rparr>"
  obtain ok ch' b' where c: "close self (?ch, snd st) = (ok, ch', b')"
    by (cases "close self (?ch, snd st)") auto
  from close_frame [of "(?ch, snd st)" self] c
  have f: "same_read_side ?ch ch'"
    "\<exists>cs. trace b' = trace (snd st) @ cs \<and> only_cancels cs"
    "poll_list b' = poll_list (snd st)"
    by auto
  have r: "request_removal self enforce st = (ch', backend_request_removal self b')"
    using True c by (auto simp: request_removal_def Let_def)
  show ?thesis
    using f unfolding r
    by (auto simp: same_read_side_def backend_request_removal_def Let_def)
qed



lemma submit_transfer_frame:
  "fst (submit_transfer w self x st) = (usb_submit w self x = 0)
   \<and> same_read_side (fst st) (fst (snd (submit_transfer w self x st)))
   \<and> (\<exists>cs. trace (snd (snd (submit_transfer w self x st))) =
          trace (snd st) @ [UsbSubmit self x (usb_submit w self x)] @ cs \<and> only_cancels cs)
   \<and> poll_list (snd (snd (submit_transfer w self x st))) = poll_list (snd st)"
proof (cases "usb_submit w self x = 0")
  case True
  then show ?thesis
    by (simp add: submit_transfer_def same_read_side_def Let_def)
next
  case False
  let ?b = "(snd st)\<lparr>trace := trace (snd st) @ [UsbSubmit self x (usb_submit w self x)]\<rparr>"
  have r: "submit_transfer w self x st = (False, request_removal self True (fst st, ?b))"
    using False by (simp add: submit_transfer_def Let_def)
  show ?thesis
    using request_removal_frame [of "(fst st, ?b)" self True] False unfolding r
    by auto
qed

lemma consumed_partial:
  assumes "\<not> readxfer_busy ch i" and "0 \<le> k"
    and "uint (readpos ch i) + k < actual_length (readxfer ch i)"
    and "actual_length (readxfer ch i) \<le> 65535"
  shows "consumed w self i (word_of_int k) (ch, b) =
           (False, ch\<lparr>readpos := (readpos ch)(i := readpos ch i + word_of_int k)\<rparr>, b)"
    and "uint (readpos ch i + word_of_int k) = uint (readpos ch i) + k"
proof -
  show u: "uint (readpos ch i + word_of_int k) = uint (readpos ch i) + k"
    using assms by (intro uint_u16_add) auto
  show "consumed w self i (word_of_int k) (ch, b) =
           (False, ch\<lparr>readpos := (readpos ch)(i := readpos ch i + word_of_int k)\<rparr>, b)"
    using assms u by (simp add: consumed_def Let_def)
qed

lemma consumed_full:
  assumes "\<not> readxfer_busy ch i" and "0 \<le> k"
    and "uint (readpos ch i) + k = actual_length (readxfer ch i)"
    and "actual_length (readxfer ch i) \<le> 65535"
  shows "uint (readpos ch i + word_of_int k) = actual_length (readxfer ch i)"
    and "consumed w self i (word_of_int k) (ch, b) =
           (let (ok, ch2, b2) = submit_transfer w self (RX i)
                  (ch\<lparr>readpos := (readpos ch)(i := readpos ch i + word_of_int k)\<rparr>, b)
            in (True, ch2\<lparr>readxfer_busy := (readxfer_busy ch2)(i := ok), current := \<not> i\<rparr>, b2))"
proof -
  show u: "uint (readpos ch i + word_of_int k) = actual_length (readxfer ch i)"
    using assms uint_u16_add [of k "readpos ch i"] by simp
  show "consumed w self i (word_of_int k) (ch, b) =
           (let (ok, ch2, b2) = submit_transfer w self (RX i)
                  (ch\<lparr>readpos := (readpos ch)(i := readpos ch i + word_of_int k)\<rparr>, b)
            in (True, ch2\<lparr>readxfer_busy := (readxfer_busy ch2)(i := ok), current := \<not> i\<rparr>, b2))"
    using assms u by (simp add: consumed_def Let_def)
qed

lemma getreadbuff_idle:
  assumes "\<not> readxfer_busy ch i"
    and "uint (readpos ch i) \<le> actual_length (readxfer ch i)"
    and "actual_length (readxfer ch i) \<le> 65535"
  shows "getreadbuff ch i =
    (Some (unat (readpos ch i)), word_of_int (actual_length (readxfer ch i) - uint (readpos ch i)))"
    and "unat (snd (getreadbuff ch i)) = nat (actual_length (readxfer ch i) - uint (readpos ch i))"
    and "(snd (getreadbuff ch i) = 0) = (uint (readpos ch i) = actual_length (readxfer ch i))"
proof -
  let ?n = "actual_length (readxfer ch i) - uint (readpos ch i)"
  have n: "0 \<le> ?n" "?n \<le> 65535"
    using assms uint_ge_0 [of "readpos ch i"] by linarith+
  show g: "getreadbuff ch i = (Some (unat (readpos ch i)), word_of_int ?n)"
    using assms by (simp add: getreadbuff_def)
  show "unat (snd (getreadbuff ch i)) = nat ?n"
    unfolding g snd_conv by (rule unat_u16_of_int [OF n])
  have u: "uint (word_of_int ?n :: u16) = ?n"
    using n by (rule uint_u16_of_int)
  have "((word_of_int ?n :: u16) = 0) = (?n = 0)"
  proof
    assume "(word_of_int ?n :: u16) = 0"
    then have "uint (word_of_int ?n :: u16) = 0" by (simp only: unsigned_0)
    then show "?n = 0" unfolding u .
  next
    assume "?n = 0"
    then show "(word_of_int ?n :: u16) = 0" by (simp only: word_of_int_0)
  qed
  then show "(snd (getreadbuff ch i) = 0) = (uint (readpos ch i) = actual_length (readxfer ch i))"
    unfolding g snd_conv by linarith
qed

text \<open>The write that \<open>writepipe\<close> attempts on an idle transfer with \<open>n > 0\<close> bytes left.\<close>

lemma writepipe_attempt:
  assumes nb: "\<not> readxfer_busy ch i"
    and n: "uint (readpos ch i) < actual_length (readxfer ch i)"
    and al: "actual_length (readxfer ch i) \<le> 65535"
    and wr: "sys_write w (fdrw ch)
        (take (nat (actual_length (readxfer ch i) - uint (readpos ch i)))
           (drop (unat (readpos ch i)) (buffer (readxfer ch i)))) = (k, err)"
  shows "writepipe w self i (ch, b) =
    (let data = take (nat (actual_length (readxfer ch i) - uint (readpos ch i)))
                  (drop (unat (readpos ch i)) (buffer (readxfer ch i)));
         st1 = (ch, b\<lparr>trace := trace b @ [SysWrite (fdrw ch) data k]\<rparr>)
     in if k \<le> 0
        then (let (bad, ch2, b2) = is_error self err k st1
              in if bad then (ch2\<lparr>pipeout_hangup := True\<rparr>, b2) else (ch2, b2))
        else (let (done, st2) = consumed w self i (word_of_int k) st1
              in if \<not> done then poll_request (fdrw (fst st2)) False st2 else st2))"
proof -
  have le: "uint (readpos ch i) \<le> actual_length (readxfer ch i)" using n by simp
  note g = getreadbuff_idle [OF nb le al]
  define sz where "sz = snd (getreadbuff ch i)"
  have g1: "getreadbuff ch i = (Some (unat (readpos ch i)), sz)"
    unfolding sz_def using g(1) by simp
  have g2: "unat sz = nat (actual_length (readxfer ch i) - uint (readpos ch i))"
    unfolding sz_def by (rule g(2))
  have g3: "sz \<noteq> 0"
    unfolding sz_def using g(3) n by simp
  show ?thesis
    unfolding writepipe_def by (simp add: g1 g2 g3 wr Let_def)
qed



lemma is_error_frame:
  "same_read_side (fst st) (fst (snd (is_error self err res st)))
   \<and> (\<exists>cs. trace (snd (snd (is_error self err res st))) = trace (snd st) @ cs
          \<and> only_cancels cs)"
  using request_removal_frame [of st self False]
  by (auto simp: is_error_def same_read_side_def)

lemma poll_request_frame:
  "fst (poll_request f reading st) = fst st
   \<and> trace (snd (poll_request f reading st)) = trace (snd st)"
  by (simp add: poll_request_def backend_poll_request_def)

lemma consumed_trace:
  "\<exists>es. trace (snd (snd (consumed w self i sz st))) = trace (snd st) @ es
     \<and> (\<forall>f. written_to f es = [])"
proof (cases "readxfer_busy (fst st) i \<or>
    \<not> actual_length (readxfer (fst st) i) \<le> uint (readpos (fst st) i + sz)")
  case True
  then show ?thesis
    by (auto simp: consumed_def Let_def)
next
  case False
  let ?st1 = "((fst st)\<lparr>readpos := (readpos (fst st))(i := readpos (fst st) i + sz)\<rparr>, snd st)"
  obtain ok ch2 b2 where s: "submit_transfer w self (RX i) ?st1 = (ok, ch2, b2)"
    by (cases "submit_transfer w self (RX i) ?st1") auto
  from submit_transfer_frame [of w self "RX i" ?st1] s
  obtain cs where cs: "trace b2 = trace (snd st) @ [UsbSubmit self (RX i) (usb_submit w self (RX i))] @ cs"
    "only_cancels cs"
    by auto
  have "snd (snd (consumed w self i sz st)) = b2"
    using False s by (simp add: consumed_def Let_def)
  then show ?thesis
    using cs by (auto simp: written_to_append only_cancels_written)
qed

lemma writepipe_trace_attempt:
  assumes nb: "\<not> readxfer_busy ch i"
    and n: "uint (readpos ch i) < actual_length (readxfer ch i)"
    and al: "actual_length (readxfer ch i) \<le> 65535"
    and wr: "sys_write w (fdrw ch)
        (take (nat (actual_length (readxfer ch i) - uint (readpos ch i)))
           (drop (unat (readpos ch i)) (buffer (readxfer ch i)))) = (k, err)"
  shows "\<exists>es. trace (snd (writepipe w self i (ch, b))) =
      trace b @ SysWrite (fdrw ch)
        (take (nat (actual_length (readxfer ch i) - uint (readpos ch i)))
           (drop (unat (readpos ch i)) (buffer (readxfer ch i)))) k # es
      \<and> (\<forall>f. written_to f es = [])"
proof -
  let ?data = "take (nat (actual_length (readxfer ch i) - uint (readpos ch i)))
           (drop (unat (readpos ch i)) (buffer (readxfer ch i)))"
  let ?st1 = "(ch, b\<lparr>trace := trace b @ [SysWrite (fdrw ch) ?data k]\<rparr>)"
  note wp = writepipe_attempt [OF nb n al wr, of self b]
  show ?thesis
  proof (cases "k \<le> 0")
    case True
    obtain bad ch2 b2 where e: "is_error self err k ?st1 = (bad, ch2, b2)"
      by (cases "is_error self err k ?st1") auto
    from is_error_frame [of ?st1 self err k] e
    obtain cs where "trace b2 = trace b @ [SysWrite (fdrw ch) ?data k] @ cs" "only_cancels cs"
      by auto
    moreover have "snd (writepipe w self i (ch, b)) = b2"
      using True e unfolding wp by (simp add: Let_def)
    ultimately show ?thesis
      by (auto simp: only_cancels_written)
  next
    case False
    obtain dn st2 where c: "consumed w self i (word_of_int k) ?st1 = (dn, st2)"
      by (cases "consumed w self i (word_of_int k) ?st1") auto
    from consumed_trace [of w self i "word_of_int k" ?st1] c
    obtain es where es: "trace (snd st2) = trace b @ [SysWrite (fdrw ch) ?data k] @ es"
      "\<forall>f. written_to f es = []"
      by auto
    have "trace (snd (writepipe w self i (ch, b))) = trace (snd st2)"
      using False c unfolding wp by (simp add: Let_def poll_request_frame)
    then show ?thesis
      using es by auto
  qed
qed



lemma drv_read_callback_ftdi:
  "drv_read_callback (Ftdi d) x pos =
     (Ftdi (fst (ftdi_read_callback d x pos)), snd (ftdi_read_callback d x pos))"
  by (simp add: drv_read_callback_def split: prod.splits)

lemma ftdi_read_callback_short:
  "actual_length x < 2 \<Longrightarrow> ftdi_read_callback d x pos = (d, x\<lparr>actual_length := 0\<rparr>, pos)"
  by (simp add: ftdi_read_callback_def)

lemma ftdi_read_callback_long:
  "2 \<le> actual_length x \<Longrightarrow>
   snd (ftdi_read_callback d x pos) = (x, 2)
   \<and> errors (fst (ftdi_read_callback d x pos)) = errors d OR (buffer x ! 1 AND error_mask)
   \<and> ifc (fst (ftdi_read_callback d x pos)) = ifc d"
  by (simp add: ftdi_read_callback_def Let_def)

lemma read_cb_completed:
  "xstatus (readxfer ch i) = LIBUSB_TRANSFER_COMPLETED \<Longrightarrow>
   read_cb w self i (ch, b) = read_callback w self i (ch, b)"
  by (simp add: read_cb_def)

text \<open>The three ways \<open>read_callback\<close> goes on after the driver has looked at the transfer
  and left position \<open>pos'\<close> and transfer \<open>x'\<close>.\<close>

lemma read_callback_after_driver:
  assumes "drv_read_callback (drv ch) (readxfer ch i) (readpos ch i) = (d', x', pos')"
  shows "read_callback w self i (ch, b) =
    (let ch1 = ch\<lparr>drv := d', readxfer := (readxfer ch)(i := x'),
                   readpos := (readpos ch)(i := pos')\<rparr>
     in if pipeout_hangup ch then (ch1, b)
        else if actual_length x' \<le> uint pos'
        then (let (ok, ch2, b2) = submit_transfer w self (RX i) (ch1, b)
              in (ch2\<lparr>readxfer_busy := (readxfer_busy ch2)(i := ok)\<rparr>, b2))
        else writepipe w self i
               (ch1\<lparr>readxfer_busy := (readxfer_busy ch1)(i := False)\<rparr>, b))"
  using assms by (simp add: read_callback_def Let_def)

lemma read_callback_resubmit_frame:
  assumes "submit_transfer w self (RX i) (ch1, b) = (ok, ch2, b2)"
  shows "readxfer ch2 = readxfer ch1 \<and> readpos ch2 = readpos ch1
    \<and> (\<forall>f. written_to f (trace b2) = written_to f (trace b))"
proof -
  from submit_transfer_frame [of w self "RX i" "(ch1, b)"] assms
  obtain cs where "same_read_side ch1 ch2"
    "trace b2 = trace b @ [UsbSubmit self (RX i) (usb_submit w self (RX i))] @ cs"
    "only_cancels cs"
    by auto
  then show ?thesis
    by (simp add: same_read_side_def written_to_append only_cancels_written)
qed


text \<open>A timed-out completion runs no driver callback: the transfer is marked idle and
  nothing else changes; it is not resubmitted.\<close>

lemma read_cb_timed_out:
  "xstatus (readxfer ch i) = LIBUSB_TRANSFER_TIMED_OUT \<Longrightarrow>
   read_cb w self i (ch, b) = (ch\<lparr>readxfer_busy := (readxfer_busy ch)(i := False)\<rparr>, b)"
  by (simp add: read_cb_def error_callback_def xfer_of_def Let_def)

section \<open>The concrete channel\<close>


text \<open>The concrete channel is the one start-up produces, and the ten-byte completion
  leads from it to the draining state.\<close>

lemma ftdi_channel_from_init:
  "file_channel_init (world 64 0 0) 0 (3, 4)
     (Ftdi \<lparr>ifc = l_ifc_ref, ifcnum = 0, isH = False, errors = 0\<rparr>)
     (Some (buf64 []), Some (buf64 []), Some (buf64 [])) True
     \<lparr>poll_list = [], child_list = [], delete_list = [], pending = False,
      channels = Map.empty, trace = []\<rparr> =
   Some (Inr (ftdi_channel,
     \<lparr>poll_list = [\<lparr>fd = 3, events = POLLIN OR POLLHUP, revents = 0\<rparr>],
      child_list = [], delete_list = [], pending = False, channels = Map.empty,
      trace = [UsbSubmit 0 (RX False) 0, UsbSubmit 0 (RX True) 0, SysRead 3 64 (-1)]\<rparr>))"
  by (simp add: file_channel_init_def drv_getifc_def getifc_def l_ifc_def
      submit_transfer_def world_def readpipe_def getwritebuff_def chunksize_def
      is_error_def poll_request_def backend_poll_request_def ftdi_channel_def
      EAGAIN_def Let_def fun_eq_iff)

lemma hello_channel_reached:
  "read_cb w 0 False
     (libusb_complete False LIBUSB_TRANSFER_COMPLETED 10
        [0x01, 0x60, 72, 101, 108, 108, 111, 1, 2, 3] (ftdi_channel, one_child)) =
   writepipe w 0 False (hello_channel, one_child)"
  by (simp add: read_cb_def read_callback_def libusb_complete_def ftdi_channel_def
      hello_channel_def drv_read_callback_def ftdi_read_callback_def error_mask_def
      buf64_def Let_def)

section \<open>Partial writes and resubmission\<close>


text \<open>C2. An idle IN transfer holds \<open>n > 0\<close> undelivered bytes \<open>data\<close> and \<^verbatim>\<open>write(2)\<close>
  accepts \<open>k\<close> of them. If \<open>k < n\<close>, \<open>readpos\<close> advances by exactly \<open>k\<close>, the transfer is
  not resubmitted (the trace gains the write and at most cancellations, the transfer stays
  idle, \<open>current\<close> stays), and whatever the next \<open>writepipe\<close> on it meets, it offers
  \<open>data\<close> from offset \<open>k\<close>. If \<open>k = n\<close>, the transfer is resubmitted right after the write and \<open>current\<close>
  becomes the other IN transfer.\<close>

theorem partial_write_resubmission:
  assumes nb: "\<not> readxfer_busy ch i"
    and n: "n = actual_length (readxfer ch i) - uint (readpos ch i)" "0 < n"
    and al: "actual_length (readxfer ch i) \<le> 65535"
    and data: "data = take (nat n) (drop (unat (readpos ch i)) (buffer (readxfer ch i)))"
    and wr: "sys_write w (fdrw ch) data = (k, err)"
    and k: "0 \<le> k" "k \<le> n"
  shows "(k < n \<longrightarrow>
       uint (readpos (fst (writepipe w self i (ch, b))) i) = uint (readpos ch i) + k
     \<and> readxfer (fst (writepipe w self i (ch, b))) = readxfer ch
     \<and> \<not> readxfer_busy (fst (writepipe w self i (ch, b))) i
     \<and> current (fst (writepipe w self i (ch, b))) = current ch
     \<and> (\<exists>cs. trace (snd (writepipe w self i (ch, b))) =
            trace b @ [SysWrite (fdrw ch) data k] @ cs \<and> only_cancels cs)
     \<and> (\<forall>w'. \<exists>es. trace (snd (writepipe w' self i (writepipe w self i (ch, b)))) =
            trace (snd (writepipe w self i (ch, b)))
            @ SysWrite (fdrw ch) (drop (nat k) data)
                (fst (sys_write w' (fdrw ch) (drop (nat k) data))) # es))
   \<and> (k = n \<longrightarrow>
       uint (readpos (fst (writepipe w self i (ch, b))) i) = actual_length (readxfer ch i)
     \<and> current (fst (writepipe w self i (ch, b))) = (\<not> i)
     \<and> readxfer_busy (fst (writepipe w self i (ch, b))) i = (usb_submit w self (RX i) = 0)
     \<and> (\<exists>cs. trace (snd (writepipe w self i (ch, b))) =
            trace b @ [SysWrite (fdrw ch) data k,
                       UsbSubmit self (RX i) (usb_submit w self (RX i))] @ cs
          \<and> only_cancels cs))"
proof (intro conjI impI)
  have lt: "uint (readpos ch i) < actual_length (readxfer ch i)"
    using n by simp
  have wr': "sys_write w (fdrw ch)
      (take (nat (actual_length (readxfer ch i) - uint (readpos ch i)))
         (drop (unat (readpos ch i)) (buffer (readxfer ch i)))) = (k, err)"
    using wr unfolding data n(1) .
  let ?st1 = "(ch, b\<lparr>trace := trace b @ [SysWrite (fdrw ch) data k]\<rparr>)"
  note wp1 = writepipe_attempt [OF nb lt al wr', of self b, folded n(1)]
  note wp0 = wp1 [folded data]
  have next_attempt:
    "\<forall>w'. \<exists>es. trace (snd (writepipe w' self i (writepipe w self i (ch, b)))) =
            trace (snd (writepipe w self i (ch, b)))
            @ SysWrite (fdrw ch) (drop (nat k) data)
                (fst (sys_write w' (fdrw ch) (drop (nat k) data))) # es"
    if f: "readxfer (fst (writepipe w self i (ch, b))) = readxfer ch"
      "readpos (fst (writepipe w self i (ch, b))) i = readpos ch i + word_of_int k"
      "\<not> readxfer_busy (fst (writepipe w self i (ch, b))) i"
      "fdrw (fst (writepipe w self i (ch, b))) = fdrw ch"
      and kn: "k < n"
  proof
    fix w' :: sys
    obtain ch' b' where st': "writepipe w self i (ch, b) = (ch', b')"
      by (cases "writepipe w self i (ch, b)") auto
    have x': "readxfer ch' i = readxfer ch i"
      and p': "readpos ch' i = readpos ch i + word_of_int k"
      and nb': "\<not> readxfer_busy ch' i" and f': "fdrw ch' = fdrw ch"
      using f unfolding st' by simp_all
    have s: "uint (readpos ch i) + k < actual_length (readxfer ch i)"
      using kn n(1) by simp
    have u: "uint (readpos ch i + word_of_int k) = uint (readpos ch i) + k"
      using consumed_partial(2) [OF nb k(1) s al] .
    have lt': "uint (readpos ch' i) < actual_length (readxfer ch' i)"
      unfolding p' x' u by (rule s)
    have al': "actual_length (readxfer ch' i) \<le> 65535"
      unfolding x' by (rule al)
    have "unat (readpos ch i + word_of_int k) = nat (uint (readpos ch i + word_of_int k))"
      by (rule unat_eq_nat_uint)
    also have "\<dots> = nat (uint (readpos ch i) + k)"
      by (simp only: u)
    also have "\<dots> = nat (uint (readpos ch i)) + nat k"
      using k(1) by (intro nat_add_distrib) simp_all
    also have "nat (uint (readpos ch i)) = unat (readpos ch i)"
      by (rule unat_eq_nat_uint [symmetric])
    finally have un: "unat (readpos ch i + word_of_int k) = unat (readpos ch i) + nat k" .
    have l: "nat (actual_length (readxfer ch i) - (uint (readpos ch i) + k)) = nat n - nat k"
      using n k(1) by linarith
    have dt: "take (nat n - nat k) (drop (unat (readpos ch i) + nat k) (buffer (readxfer ch i)))
        = drop (nat k) (take (nat n) (drop (unat (readpos ch i)) (buffer (readxfer ch i))))"
      by (simp add: drop_take add.commute)
    have d: "take (nat (actual_length (readxfer ch' i) - uint (readpos ch' i)))
         (drop (unat (readpos ch' i)) (buffer (readxfer ch' i))) = drop (nat k) data"
      unfolding p' x' u un l data by (rule dt)
    obtain k' err' where wr2: "sys_write w' (fdrw ch) (drop (nat k) data) = (k', err')"
      by (cases "sys_write w' (fdrw ch) (drop (nat k) data)") auto
    have wr3: "sys_write w' (fdrw ch')
        (take (nat (actual_length (readxfer ch' i) - uint (readpos ch' i)))
         (drop (unat (readpos ch' i)) (buffer (readxfer ch' i)))) = (k', err')"
      unfolding d f' by (rule wr2)
    have "\<exists>es. trace (snd (writepipe w' self i (ch', b'))) =
        trace b' @ SysWrite (fdrw ch')
          (take (nat (actual_length (readxfer ch' i) - uint (readpos ch' i)))
             (drop (unat (readpos ch' i)) (buffer (readxfer ch' i)))) k' # es
        \<and> (\<forall>f. written_to f es = [])"
      using nb' lt' al' wr3 by (rule writepipe_trace_attempt)
    then obtain es where "trace (snd (writepipe w' self i (ch', b'))) =
        trace b' @ SysWrite (fdrw ch') (drop (nat k) data) k' # es"
      unfolding d by blast
    then have "trace (snd (writepipe w' self i (writepipe w self i (ch, b)))) =
          trace (snd (writepipe w self i (ch, b)))
          @ SysWrite (fdrw ch) (drop (nat k) data)
              (fst (sys_write w' (fdrw ch) (drop (nat k) data))) # es"
      unfolding st' wr2 f' by simp
    then show "\<exists>es. trace (snd (writepipe w' self i (writepipe w self i (ch, b)))) =
          trace (snd (writepipe w self i (ch, b)))
          @ SysWrite (fdrw ch) (drop (nat k) data)
              (fst (sys_write w' (fdrw ch) (drop (nat k) data))) # es"
      by blast
  qed
  have part: "uint (readpos (fst (writepipe w self i (ch, b))) i) = uint (readpos ch i) + k
     \<and> readxfer (fst (writepipe w self i (ch, b))) = readxfer ch
     \<and> \<not> readxfer_busy (fst (writepipe w self i (ch, b))) i
     \<and> current (fst (writepipe w self i (ch, b))) = current ch
     \<and> (\<exists>cs. trace (snd (writepipe w self i (ch, b))) =
            trace b @ [SysWrite (fdrw ch) data k] @ cs \<and> only_cancels cs)
     \<and> readpos (fst (writepipe w self i (ch, b))) i = readpos ch i + word_of_int k
     \<and> fdrw (fst (writepipe w self i (ch, b))) = fdrw ch"
    if kn: "k < n"
  proof (cases "k = 0")
    case True
    obtain bad ch2 b2 where e: "is_error self err k ?st1 = (bad, ch2, b2)"
      by (cases "is_error self err k ?st1") auto
    from is_error_frame [of ?st1 self err k] e
    have fr: "same_read_side ch ch2"
      "\<exists>cs. trace b2 = trace b @ [SysWrite (fdrw ch) data k] @ cs \<and> only_cancels cs"
      by auto
    have r: "writepipe w self i (ch, b) =
        (if bad then (ch2\<lparr>pipeout_hangup := True\<rparr>, b2) else (ch2, b2))"
      unfolding wp0 using True e by (simp add: Let_def)
    show ?thesis
      unfolding r using fr nb True by (auto simp: same_read_side_def)
  next
    case False
    then have kpos: "0 < k" using k(1) by simp
    let ?ch' = "ch\<lparr>readpos := (readpos ch)(i := readpos ch i + word_of_int k)\<rparr>"
    have s: "uint (readpos ch i) + k < actual_length (readxfer ch i)"
      using kn n(1) by simp
    have c: "consumed w self i (word_of_int k) ?st1 = (False, ?ch', snd ?st1)"
      using consumed_partial(1) [of ch i k w self "snd ?st1"] nb k(1) s al by simp
    have u: "uint (readpos ch i + word_of_int k) = uint (readpos ch i) + k"
      using consumed_partial(2) [OF nb k(1) s al] .
    have r: "writepipe w self i (ch, b) = poll_request (fdrw ch) False (?ch', snd ?st1)"
      unfolding wp0 using kpos c by (simp add: Let_def)
    have f: "fst (writepipe w self i (ch, b)) = ?ch'"
      unfolding r by (simp add: poll_request_frame)
    have t: "trace (snd (writepipe w self i (ch, b))) = trace b @ [SysWrite (fdrw ch) data k]"
      unfolding r by (simp add: poll_request_frame)
    show ?thesis
      unfolding f t using u nb by simp
  qed
  {
    assume kn: "k < n"
    note p = part [OF kn]
    show "uint (readpos (fst (writepipe w self i (ch, b))) i) = uint (readpos ch i) + k"
      using p by blast
    show "readxfer (fst (writepipe w self i (ch, b))) = readxfer ch"
      using p by blast
    show "\<not> readxfer_busy (fst (writepipe w self i (ch, b))) i"
      using p by blast
    show "current (fst (writepipe w self i (ch, b))) = current ch"
      using p by blast
    show "\<exists>cs. trace (snd (writepipe w self i (ch, b))) =
            trace b @ [SysWrite (fdrw ch) data k] @ cs \<and> only_cancels cs"
      using p by blast
    show "\<forall>w'. \<exists>es. trace (snd (writepipe w' self i (writepipe w self i (ch, b)))) =
            trace (snd (writepipe w self i (ch, b)))
            @ SysWrite (fdrw ch) (drop (nat k) data)
                (fst (sys_write w' (fdrw ch) (drop (nat k) data))) # es"
      using p kn by (intro next_attempt) blast+
  }
  {
    assume kn: "k = n"
    let ?ch1 = "ch\<lparr>readpos := (readpos ch)(i := readpos ch i + word_of_int k)\<rparr>"
    have s: "uint (readpos ch i) + k = actual_length (readxfer ch i)"
      using kn n(1) by simp
    have k0: "0 \<le> k" by (rule k(1))
    have kpos: "0 < k" using kn n(2) by simp
    have u: "uint (readpos ch i + word_of_int k) = actual_length (readxfer ch i)"
      using consumed_full(1) [OF nb k0 s al] .
    obtain ok ch2 b2 where sub: "submit_transfer w self (RX i) (?ch1, snd ?st1) = (ok, ch2, b2)"
      by (cases "submit_transfer w self (RX i) (?ch1, snd ?st1)") auto
    have c: "consumed w self i (word_of_int k) ?st1 =
        (True, ch2\<lparr>readxfer_busy := (readxfer_busy ch2)(i := ok), current := \<not> i\<rparr>, b2)"
      using consumed_full(2) [of ch i k w self "snd ?st1"] nb k0 s al sub by simp
    have r: "writepipe w self i (ch, b) =
        (ch2\<lparr>readxfer_busy := (readxfer_busy ch2)(i := ok), current := \<not> i\<rparr>, b2)"
      unfolding wp0 using kpos c by (simp add: Let_def)
    from submit_transfer_frame [of w self "RX i" "(?ch1, snd ?st1)"] sub
    have fr: "ok = (usb_submit w self (RX i) = 0)" "same_read_side ?ch1 ch2"
      "\<exists>cs. trace b2 = trace b @ [SysWrite (fdrw ch) data k]
          @ [UsbSubmit self (RX i) (usb_submit w self (RX i))] @ cs \<and> only_cancels cs"
      by auto
    show "uint (readpos (fst (writepipe w self i (ch, b))) i) = actual_length (readxfer ch i)"
      unfolding r using fr(2) u by (simp add: same_read_side_def)
    show "current (fst (writepipe w self i (ch, b))) = (\<not> i)"
      unfolding r by simp
    show "readxfer_busy (fst (writepipe w self i (ch, b))) i = (usb_submit w self (RX i) = 0)"
      unfolding r using fr(1) by simp
    show "\<exists>cs. trace (snd (writepipe w self i (ch, b))) =
            trace b @ [SysWrite (fdrw ch) data k,
                       UsbSubmit self (RX i) (usb_submit w self (RX i))] @ cs
          \<and> only_cancels cs"
      unfolding r using fr(3) by simp
  }
qed



theorem partial_write_resubmission_witness:
  "uint (readpos (fst (writepipe (world 3 0 0) 0 False (hello_channel, one_child))) False) = 5
   \<and> current (fst (writepipe (world 3 0 0) 0 False (hello_channel, one_child))) = False
   \<and> current (fst (writepipe (world 8 0 0) 0 False (hello_channel, one_child))) = True
   \<and> readxfer_busy (fst (writepipe (world 8 0 0) 0 False (hello_channel, one_child))) False"
proof -
  have nb: "\<not> readxfer_busy hello_channel False"
    by (simp add: hello_channel_def)
  have n: "(8::int) = actual_length (readxfer hello_channel False)
      - uint (readpos hello_channel False)" "(0::int) < 8"
    by (simp_all add: hello_channel_def)
  have al: "actual_length (readxfer hello_channel False) \<le> 65535"
    by (simp add: hello_channel_def)
  have data: "[72, 101, 108, 108, 111, 1, 2, 3] =
      take (nat 8) (drop (unat (readpos hello_channel False))
        (buffer (readxfer hello_channel False)))"
    by (simp add: hello_channel_def buf64_def)
  have wr3: "sys_write (world 3 0 0) (fdrw hello_channel) [72, 101, 108, 108, 111, 1, 2, 3]
      = (3, 0)"
    and wr8: "sys_write (world 8 0 0) (fdrw hello_channel) [72, 101, 108, 108, 111, 1, 2, 3]
      = (8, 0)"
    by (simp_all add: world_def)
  have k3: "(0::int) \<le> 3" "(3::int) \<le> 8" and k8: "(0::int) \<le> 8" "(8::int) \<le> 8"
    by simp_all
  show ?thesis
    using partial_write_resubmission [OF nb n al data wr3 k3, of 0 one_child]
      partial_write_resubmission [OF nb n al data wr8 k8, of 0 one_child]
    by (simp add: hello_channel_def ftdi_channel_def one_child_def world_def)
qed

section \<open>FTDI status bytes\<close>







section \<open>The position invariant\<close>


lemma writepipe_positions:
  assumes wr: "\<forall>f data. fst (sys_write w f data) \<le> int (length data)"
    and le: "uint (readpos ch j) \<le> actual_length (readxfer ch j)"
    and al: "actual_length (readxfer ch j) \<le> 65535"
  shows "readxfer (fst (writepipe w self j (ch, b))) = readxfer ch
     \<and> (\<forall>i. i \<noteq> j \<longrightarrow> readpos (fst (writepipe w self j (ch, b))) i = readpos ch i)
     \<and> uint (readpos (fst (writepipe w self j (ch, b))) j) \<le> actual_length (readxfer ch j)"
proof (cases "readxfer_busy ch j \<or> uint (readpos ch j) = actual_length (readxfer ch j)")
  case True
  have "snd (getreadbuff ch j) = 0"
  proof (cases "readxfer_busy ch j")
    case True
    then show ?thesis by (simp add: getreadbuff_def)
  next
    case False
    with True have "uint (readpos ch j) = actual_length (readxfer ch j)" by simp
    then show ?thesis using getreadbuff_idle(3) [OF False le al] by simp
  qed
  then obtain buff where g: "getreadbuff ch j = (buff, 0)"
    by (cases "getreadbuff ch j") auto
  have "writepipe w self j (ch, b) = (ch, b)"
    by (simp add: writepipe_def g)
  then show ?thesis using le by simp
next
  case False
  then have nb: "\<not> readxfer_busy ch j"
    and lt: "uint (readpos ch j) < actual_length (readxfer ch j)"
    using le by auto
  let ?n = "actual_length (readxfer ch j) - uint (readpos ch j)"
  let ?data = "take (nat ?n) (drop (unat (readpos ch j)) (buffer (readxfer ch j)))"
  obtain k err where w: "sys_write w (fdrw ch) ?data = (k, err)"
    by (cases "sys_write w (fdrw ch) ?data") auto
  let ?st1 = "(ch, b\<lparr>trace := trace b @ [SysWrite (fdrw ch) ?data k]\<rparr>)"
  note wp = writepipe_attempt [OF nb lt al w, of self b]
  have "k \<le> int (length ?data)"
    using wr [rule_format, of "fdrw ch" ?data] w by simp
  also have "\<dots> \<le> ?n"
    using lt by simp
  finally have kn: "k \<le> ?n" .
  show ?thesis
  proof (cases "k \<le> 0")
    case True
    obtain bad ch2 b2 where e: "is_error self err k ?st1 = (bad, ch2, b2)"
      by (cases "is_error self err k ?st1") auto
    from is_error_frame [of ?st1 self err k] e
    have fr: "same_read_side ch ch2" by auto
    have r: "writepipe w self j (ch, b) =
        (if bad then (ch2\<lparr>pipeout_hangup := True\<rparr>, b2) else (ch2, b2))"
      unfolding wp using True e by (simp add: Let_def)
    show ?thesis
      unfolding r using fr le by (auto simp: same_read_side_def)
  next
    case False
    then have k0: "0 \<le> k" by simp
    let ?ch' = "ch\<lparr>readpos := (readpos ch)(j := readpos ch j + word_of_int k)\<rparr>"
    show ?thesis
    proof (cases "k < ?n")
      case True
      then have s: "uint (readpos ch j) + k < actual_length (readxfer ch j)" by simp
      have c: "consumed w self j (word_of_int k) ?st1 = (False, ?ch', snd ?st1)"
        using consumed_partial(1) [of ch j k w self "snd ?st1"] nb k0 s al by simp
      have u: "uint (readpos ch j + word_of_int k) = uint (readpos ch j) + k"
        using consumed_partial(2) [OF nb k0 s al] .
      have r: "writepipe w self j (ch, b) = poll_request (fdrw ch) False (?ch', snd ?st1)"
        unfolding wp using False c by (simp add: Let_def)
      have f: "fst (writepipe w self j (ch, b)) = ?ch'"
        unfolding r by (simp add: poll_request_frame)
      show ?thesis
        unfolding f using u s by simp
    next
      case nlt: False
      then have s: "uint (readpos ch j) + k = actual_length (readxfer ch j)"
        using kn by simp
      have u: "uint (readpos ch j + word_of_int k) = actual_length (readxfer ch j)"
        using consumed_full(1) [OF nb k0 s al] .
      obtain ok ch2 b2 where sub: "submit_transfer w self (RX j) (?ch', snd ?st1) = (ok, ch2, b2)"
        by (cases "submit_transfer w self (RX j) (?ch', snd ?st1)") auto
      have c: "consumed w self j (word_of_int k) ?st1 =
          (True, ch2\<lparr>readxfer_busy := (readxfer_busy ch2)(j := ok), current := \<not> j\<rparr>, b2)"
        using consumed_full(2) [of ch j k w self "snd ?st1"] nb k0 s al sub by simp
      have r: "writepipe w self j (ch, b) =
          (ch2\<lparr>readxfer_busy := (readxfer_busy ch2)(j := ok), current := \<not> j\<rparr>, b2)"
        unfolding wp using False c by (simp add: Let_def)
      from submit_transfer_frame [of w self "RX j" "(?ch', snd ?st1)"] sub
      have fr: "same_read_side ?ch' ch2" by auto
      show ?thesis
        unfolding r using fr u by (simp add: same_read_side_def)
    qed
  qed
qed

lemma drv_read_callback_positions:
  assumes "drv_read_callback (drv ch) (readxfer ch i) (readpos ch i) = (d', x', pos')"
    and "0 \<le> actual_length (readxfer ch i)"
    and "(\<exists>d. drv ch = Ftdi d) \<longrightarrow> 2 \<le> actual_length (readxfer ch i) \<or> readpos ch i = 0"
  shows "uint pos' \<le> actual_length x' \<and> actual_length x' \<le> actual_length (readxfer ch i)"
proof (cases "drv ch")
  case (Ftdi d)
  show ?thesis
  proof (cases "2 \<le> actual_length (readxfer ch i)")
    case True
    then show ?thesis
      using assms(1) ftdi_read_callback_long [OF True, of d "readpos ch i"]
      unfolding Ftdi drv_read_callback_ftdi by auto
  next
    case False
    then have short: "actual_length (readxfer ch i) < 2" by simp
    have "readpos ch i = 0" using assms(3) False Ftdi by simp
    then show ?thesis
      using assms(1,2) unfolding Ftdi drv_read_callback_ftdi ftdi_read_callback_short [OF short]
      by auto
  qed
qed (use assms in \<open>auto simp: drv_read_callback_def\<close>)



lemma readpipe_positions:
  assumes "readpipe w self st = Some st'"
  shows "readxfer (fst st') = readxfer (fst st) \<and> readpos (fst st') = readpos (fst st)"
proof -
  obtain buff sz where g: "getwritebuff (fst st) = Some (buff, sz)"
    using assms by (auto simp: readpipe_def split: option.splits)
  obtain res err data where rd: "sys_read w (fdrd (fst st)) (unat sz) = (res, err, data)"
    by (cases "sys_read w (fdrd (fst st)) (unat sz)") auto
  define stored where "stored = (if 0 < res \<and> buff \<noteq> None
      then take (nat res) data @ drop (nat res) (buffer (writexfer (fst st)))
      else buffer (writexfer (fst st)))"
  define st1 where "st1 = ((fst st)\<lparr>writexfer := (writexfer (fst st))\<lparr>buffer := stored\<rparr>\<rparr>,
      (snd st)\<lparr>trace := trace (snd st) @ [SysRead (fdrd (fst st)) (unat sz) res]\<rparr>)"
  have s1: "readxfer (fst st1) = readxfer (fst st)" "readpos (fst st1) = readpos (fst st)"
    by (simp_all add: st1_def)
  have r: "st' = (if res \<le> 0
      then (let (bad, ch2, b2) = is_error self err res st1
            in if bad then (ch2\<lparr>pipein_hangup := True\<rparr>, b2)
               else if res = 0 then (ch2\<lparr>pipein_hangup := True\<rparr>, b2)
               else poll_request (fdrd ch2) True (ch2, b2))
      else submit w self (word_of_int res) st1)"
  proof -
    have "Some st' = readpipe w self st"
      using assms by simp
    then show ?thesis
      unfolding readpipe_def g st1_def stored_def by (simp add: rd Let_def)
  qed
  show ?thesis
  proof (cases "res \<le> 0")
    case True
    obtain bad ch2 b2 where e: "is_error self err res st1 = (bad, ch2, b2)"
      by (cases "is_error self err res st1") auto
    from is_error_frame [of st1 self err res] e
    have "same_read_side (fst st1) ch2" by auto
    then show ?thesis
      unfolding r using True e s1
      by (auto simp: same_read_side_def poll_request_frame)
  next
    case False
    let ?ch = "(fst st1)\<lparr>writexfer := (writexfer (fst st1))\<lparr>xlength := uint (word_of_int res :: u16)\<rparr>\<rparr>"
    obtain ok ch2 b2 where sub: "submit_transfer w self WX (?ch, snd st1) = (ok, ch2, b2)"
      by (cases "submit_transfer w self WX (?ch, snd st1)") auto
    from submit_transfer_frame [of w self WX "(?ch, snd st1)"] sub
    have "same_read_side ?ch ch2" by auto
    moreover have "st' = (ch2\<lparr>writexfer_busy := ok\<rparr>, b2)"
      unfolding r using False sub by (simp add: submit_def Let_def)
    ultimately show ?thesis
      using s1 by (simp add: same_read_side_def)
  qed
qed

lemma file_channel_init_positions:
  assumes "file_channel_init w self chn d bufs xfers_ok b = Some (Inr (ch0, b0))"
  shows "readpos ch0 i = 0 \<and> actual_length (readxfer ch0 i) = 0"
proof -
  obtain n where n: "map_option chunk_size (drv_getifc d) = Some n"
    using assms by (auto simp: file_channel_init_def split: option.splits)
  obtain readbuff0 readbuff1 writebuff
    where bufs: "bufs = (Some readbuff0, Some readbuff1, Some writebuff)"
    using assms n by (auto simp: file_channel_init_def split: option.splits prod.splits)
  have ok: "xfers_ok"
    using assms n bufs by (auto simp: file_channel_init_def split: if_splits)
  define rx where "rx = (\<lambda>buf. \<lparr>xstatus = LIBUSB_TRANSFER_COMPLETED, xlength = uint n,
      actual_length = 0, buffer = buf\<rparr>)"
  define ch where "ch = \<lparr>readxfer = (\<lambda>i. if i then rx readbuff1 else rx readbuff0),
      current = False,
      writexfer = \<lparr>xstatus = LIBUSB_TRANSFER_COMPLETED, xlength = 0,
                   actual_length = 0, buffer = writebuff\<rparr>,
      readpos = (\<lambda>i. 0), readxfer_busy = (\<lambda>i. False), writexfer_busy = False,
      fdrd = fst chn, fdrw = snd chn, drv = d,
      pipein_ready = False, pipeout_ready = False,
      pipein_hangup = False, pipeout_hangup = False, device_hangup = False\<rparr>"
  obtain ok0 c0 b0' where s0: "submit_transfer w self (RX False) (ch, b) = (ok0, c0, b0')"
    by (cases "submit_transfer w self (RX False) (ch, b)") auto
  define c0' where "c0' = c0\<lparr>readxfer_busy := (readxfer_busy c0)(False := ok0)\<rparr>"
  obtain ok1 c1 b1 where s1: "submit_transfer w self (RX True) (c0', b0') = (ok1, c1, b1)"
    by (cases "submit_transfer w self (RX True) (c0', b0')") auto
  define c1' where "c1' = c1\<lparr>readxfer_busy := (readxfer_busy c1)(True := ok1)\<rparr>"
  have rp: "readpipe w self (c1', b1) = Some (ch0, b0)"
    using assms unfolding file_channel_init_def n bufs
    using ok s0 s1
    by (simp add: Let_def rx_def [symmetric] ch_def [symmetric] c0'_def [symmetric]
        c1'_def [symmetric] split: option.splits)
  from submit_transfer_frame [of w self "RX False" "(ch, b)"] s0
  have f0: "same_read_side ch c0" by auto
  from submit_transfer_frame [of w self "RX True" "(c0', b0')"] s1
  have f1: "same_read_side c0' c1" by auto
  have "readxfer c1' = readxfer ch \<and> readpos c1' = readpos ch"
    using f0 f1 by (simp add: same_read_side_def c0'_def c1'_def)
  with readpipe_positions [OF rp]
  have "readxfer ch0 = readxfer ch \<and> readpos ch0 = readpos ch" by simp
  then show ?thesis
    by (simp add: ch_def rx_def)
qed

text \<open>Where the position invariant does hold. With a chunk size that fits 16 bits and
  \<^verbatim>\<open>write(2)\<close> never accepting more than it was offered,
  \<open>0 \<le> readpos[i] \<le> actual_length[i] \<le> chunk_size\<close> holds for both IN transfers after
  \<open>init\<close>; it holds for both after the completion callback of a transfer that libusb
  completed with status \<^verbatim>\<open>COMPLETED\<close> and between 0 and \<open>chunk_size\<close> bytes, provided it
  held for the other transfer and, on an FTDI channel, the transfer has at least 2 bytes
  or its \<open>readpos\<close> is still 0; and every pipe write preserves it. The completions left
  out are those of \<open>readpos_overruns_actual_length\<close> below.\<close>

lemma readpos_invariant_preserved:
  assumes chunk: "0 \<le> chunk" "chunk \<le> 65535"
    and wr: "\<forall>f data. fst (sys_write w f data) \<le> int (length data)"
  shows "(file_channel_init w self chn d bufs xfers_ok b = Some (Inr (ch0, b0)) \<longrightarrow>
        readpos_inv chunk ch0 False \<and> readpos_inv chunk ch0 True)
   \<and> (xstatus (readxfer ch i) = LIBUSB_TRANSFER_COMPLETED
        \<and> 0 \<le> actual_length (readxfer ch i) \<and> actual_length (readxfer ch i) \<le> chunk
        \<and> readpos_inv chunk ch (\<not> i)
        \<and> ((\<exists>f. drv ch = Ftdi f) \<longrightarrow> 2 \<le> actual_length (readxfer ch i) \<or> readpos ch i = 0)
      \<longrightarrow> readpos_inv chunk (fst (read_cb w self i (ch, b))) i
          \<and> readpos_inv chunk (fst (read_cb w self i (ch, b))) (\<not> i))
   \<and> (readpos_inv chunk ch False \<and> readpos_inv chunk ch True
      \<longrightarrow> readpos_inv chunk (fst (writepipe w self j (ch, b))) False
          \<and> readpos_inv chunk (fst (writepipe w self j (ch, b))) True)"
proof (intro conjI impI)
  assume "file_channel_init w self chn d bufs xfers_ok b = Some (Inr (ch0, b0))"
  from file_channel_init_positions [OF this]
  show "readpos_inv chunk ch0 False" and "readpos_inv chunk ch0 True"
    using chunk by (simp_all add: readpos_inv_def)
next
  assume a: "readpos_inv chunk ch False \<and> readpos_inv chunk ch True"
  then have both: "readpos_inv chunk ch k" for k
    by (cases k) auto
  have le: "uint (readpos ch j) \<le> actual_length (readxfer ch j)"
    and al: "actual_length (readxfer ch j) \<le> 65535"
    using both [of j] chunk by (auto simp: readpos_inv_def)
  note p = writepipe_positions [OF wr le al, of self b]
  have "readpos_inv chunk (fst (writepipe w self j (ch, b))) k" for k
  proof (cases "k = j")
    case True
    then show ?thesis
      using p both [of j] by (simp add: readpos_inv_def)
  next
    case False
    then show ?thesis
      using p both [of k] by (simp add: readpos_inv_def)
  qed
  then show "readpos_inv chunk (fst (writepipe w self j (ch, b))) False"
    and "readpos_inv chunk (fst (writepipe w self j (ch, b))) True"
    by blast+
next
  assume a: "xstatus (readxfer ch i) = LIBUSB_TRANSFER_COMPLETED
        \<and> 0 \<le> actual_length (readxfer ch i) \<and> actual_length (readxfer ch i) \<le> chunk
        \<and> readpos_inv chunk ch (\<not> i)
        \<and> ((\<exists>f. drv ch = Ftdi f) \<longrightarrow> 2 \<le> actual_length (readxfer ch i) \<or> readpos ch i = 0)"
  let ?R = "read_cb w self i (ch, b)"
  have R: "?R = read_callback w self i (ch, b)"
    using a by (intro read_cb_completed) simp
  obtain d' x' pos' where
    dc: "drv_read_callback (drv ch) (readxfer ch i) (readpos ch i) = (d', x', pos')"
    by (cases "drv_read_callback (drv ch) (readxfer ch i) (readpos ch i)") auto
  have dp: "uint pos' \<le> actual_length x'" "actual_length x' \<le> actual_length (readxfer ch i)"
    using drv_read_callback_positions [OF dc] a by blast+
  let ?ch1 = "ch\<lparr>drv := d', readxfer := (readxfer ch)(i := x'),
                 readpos := (readpos ch)(i := pos')\<rparr>"
  have i1: "readpos_inv chunk ?ch1 i"
    using dp a by (simp add: readpos_inv_def)
  have o1: "readpos_inv chunk ?ch1 (\<not> i)"
    using a by (simp add: readpos_inv_def)
  note rc = read_callback_after_driver [OF dc, of w self b]
  have "readpos_inv chunk (fst ?R) i \<and> readpos_inv chunk (fst ?R) (\<not> i)"
  proof (cases "pipeout_hangup ch")
    case True
    then show ?thesis
      unfolding R rc using i1 o1 by (simp add: Let_def)
  next
    case nh: False
    show ?thesis
    proof (cases "actual_length x' \<le> uint pos'")
      case True
      obtain ok ch2 b2 where s: "submit_transfer w self (RX i) (?ch1, b) = (ok, ch2, b2)"
        by (cases "submit_transfer w self (RX i) (?ch1, b)") auto
      have r: "?R = (ch2\<lparr>readxfer_busy := (readxfer_busy ch2)(i := ok)\<rparr>, b2)"
        unfolding R rc using nh True s by (simp add: Let_def)
      from read_callback_resubmit_frame [OF s]
      have "readxfer ch2 = readxfer ?ch1" "readpos ch2 = readpos ?ch1" by blast+
      then show ?thesis
        unfolding r using i1 o1 by (simp add: readpos_inv_def)
    next
      case False
      let ?ch2 = "?ch1\<lparr>readxfer_busy := (readxfer_busy ?ch1)(i := False)\<rparr>"
      have r: "?R = writepipe w self i (?ch2, b)"
        unfolding R rc using nh False by (simp add: Let_def)
      have i2: "readpos_inv chunk ?ch2 i" and o2: "readpos_inv chunk ?ch2 (\<not> i)"
        using i1 o1 by (simp_all add: readpos_inv_def)
      have le: "uint (readpos ?ch2 i) \<le> actual_length (readxfer ?ch2 i)"
        and al: "actual_length (readxfer ?ch2 i) \<le> 65535"
        using i2 chunk by (auto simp: readpos_inv_def)
      note p = writepipe_positions [OF wr le al, of self b]
      show ?thesis
        unfolding r using p i2 o2 by (simp add: readpos_inv_def)
    qed
  qed
  then show "readpos_inv chunk (fst ?R) i" and "readpos_inv chunk (fst ?R) (\<not> i)"
    by blast+
qed



lemma readpos_invariant_preserved_witness:
  "(\<forall>f data. fst (sys_write (world 3 0 0) f data) \<le> int (length data))
   \<and> readpos_inv 64 hello_channel False \<and> readpos_inv 64 hello_channel True
   \<and> readpos_inv 64 (fst (writepipe (world 3 0 0) 0 False (hello_channel, one_child))) False
   \<and> readpos_inv 64 (fst (writepipe (world 3 0 0) 0 False (hello_channel, one_child))) True
   \<and> readpos_inv 64 (fst (read_cb (world 3 0 0) 0 False
        (fst (libusb_complete False LIBUSB_TRANSFER_COMPLETED 10
           [0x01, 0x60, 72, 101, 108, 108, 111, 1, 2, 3] (ftdi_channel, one_child)),
         one_child))) False"
proof -
  have chunk: "(0::int) \<le> 64" "(64::int) \<le> 65535"
    by simp_all
  have wr: "\<forall>f data. fst (sys_write (world 3 0 0) f data) \<le> int (length data)"
    by (simp add: world_def)
  have h: "readpos_inv 64 hello_channel False \<and> readpos_inv 64 hello_channel True"
    by (simp add: readpos_inv_def hello_channel_def ftdi_channel_def)
  let ?c = "fst (libusb_complete False LIBUSB_TRANSFER_COMPLETED 10
           [0x01, 0x60, 72, 101, 108, 108, 111, 1, 2, 3] (ftdi_channel, one_child))"
  have c: "xstatus (readxfer ?c False) = LIBUSB_TRANSFER_COMPLETED
        \<and> 0 \<le> actual_length (readxfer ?c False) \<and> actual_length (readxfer ?c False) \<le> 64
        \<and> readpos_inv 64 ?c (\<not> False)
        \<and> ((\<exists>f. drv ?c = Ftdi f) \<longrightarrow> 2 \<le> actual_length (readxfer ?c False)
              \<or> readpos ?c False = 0)"
    by (simp add: libusb_complete_def readpos_inv_def ftdi_channel_def)
  note t = readpos_invariant_preserved [OF chunk wr]
  show ?thesis
    using wr h t [where ch = hello_channel and j = False and b = one_child and self = 0]
      t [where ch = "?c" and i = False and b = one_child and self = 0] c
    by blast
qed

text \<open>C3 at a failing input: the code does not keep
  \<open>0 \<le> readpos[i] \<le> actual_length[i] \<le> chunk_size\<close>, although \<open>getreadbuff\<close> relies on
  it. On the FTDI channel (chunk size 64, buffers of 64 bytes) both IN transfers have
  delivered ten bytes that the pipe took in full; the invariant holds for both, both are
  in flight and \<open>current\<close> is transfer 0. Then transfer 0 completes once more.

  \<^item> With status \<^verbatim>\<open>TIMED_OUT\<close> and no bytes, \<open>read_cb\<close> runs no callback and submits
    nothing: the transfer is left idle with \<open>readpos = 10\<close> and \<open>actual_length = 0\<close>, the
    invariant is false, and \<open>getreadbuff\<close> for the \<open>current\<close> transfer, which is what
    \<open>events\<close> passes to \<open>writepipe\<close> and \<open>writepipe\<close> to \<^verbatim>\<open>write(2)\<close>, answers offset 10 and
    the 16-bit size \<open>0 - 10 = 65526\<close> for a buffer of 64 bytes.
  \<^item> With status \<^verbatim>\<open>COMPLETED\<close> and one byte, the FTDI \<open>read_callback\<close> zeroes
    \<open>actual_length\<close> and returns before it assigns the position: \<open>readpos\<close> stays 10 and
    the invariant is false when the callback returns.\<close>

theorem readpos_overruns_actual_length:
  "map_option chunk_size (drv_getifc (drv (fst drained_twice))) = Some 64
   \<and> readpos_inv 64 (fst drained_twice) False \<and> readpos_inv 64 (fst drained_twice) True
   \<and> readxfer_busy (fst drained_twice) False \<and> readxfer_busy (fst drained_twice) True
   \<and> current (fst drained_twice) = False
   \<and> \<not> readpos_inv 64 (fst then_timed_out) False
   \<and> readpos (fst then_timed_out) False = 10
   \<and> actual_length (readxfer (fst then_timed_out) False) = 0
   \<and> length (buffer (readxfer (fst then_timed_out) False)) = 64
   \<and> \<not> readxfer_busy (fst then_timed_out) False
   \<and> current (fst then_timed_out) = False
   \<and> getreadbuff (fst then_timed_out) (current (fst then_timed_out)) = (Some 10, 65526)
   \<and> \<not> readpos_inv 64 (fst then_one_byte) False
   \<and> readpos (fst then_one_byte) False = 10
   \<and> actual_length (readxfer (fst then_one_byte) False) = 0"
  by (simp add: then_timed_out_def then_one_byte_def drained_twice_def drained_once_def
      ten_bytes_def read_cb_def read_callback_def error_callback_def xfer_of_def
      libusb_complete_def ftdi_channel_def drv_read_callback_def ftdi_read_callback_def
      writepipe_def getreadbuff_def consumed_def submit_transfer_def world_def buf64_def
      readpos_inv_def drv_getifc_def getifc_def l_ifc_def Let_def)

end
